theory Spec2Isabelle
  imports Complex_Main "HOL-Library.Multiset" "HOL-Library.Word" "HOL-Library.Product_Lexorder"
begin

section \<open>Data model\<close>

text \<open>
  The C++ sources compute in \<^verbatim>\<open>float\<close>. Two models of \<^verbatim>\<open>float\<close> are used below.

  Where the statement at hand does not depend on rounding (the early returns, the
  missing guard of \<^verbatim>\<open>computeDiversity\<close>, the agreement of the two sets of utility
  functions, the length of a generated trajectory), a \<^verbatim>\<open>float\<close> value is a real
  number. There a division whose divisor the source does not keep away from zero is
  written with \<open>fdiv\<close>, whose result \<open>None\<close> stands for "not a real number" (IEEE 754
  gives NaN for \<open>0 / 0\<close> and an infinity for other dividends); every other division of
  the source is written \<open>/\<close> and stands under a guard of the source that keeps its
  divisor away from zero.

  Where rounding, overflow or NaN decide the statement (the ranking, the normalization
  round trip, the path efficiency, \<^verbatim>\<open>std::stof\<close>), the computation is done in IEEE 754
  binary32, in the definitions whose names end in \<open>_f32\<close>.

  The literal \<^verbatim>\<open>1e-6f\<close> is the \<^verbatim>\<open>float\<close> nearest to \<open>10\<^sup>-\<^sup>6\<close>, which is
  \<open>8796093 / 2\<^sup>4\<^sup>3\<close>.

  \<^verbatim>\<open>struct Waypoint { float x; float y; float z; }\<close>: the fields are named
  \<open>wp_x\<close>, \<open>wp_y\<close>, \<open>wp_z\<close> here (\<open>x32\<close>, \<open>y32\<close>, \<open>z32\<close> in binary32), so that \<open>x\<close>, \<open>y\<close>
  and \<open>z\<close> stay free for variables.
\<close>

record Waypoint =
  wp_x :: real
  wp_y :: real
  wp_z :: real

type_synonym Trajectory = "Waypoint list"

record TrajectoryMetrics =
  path_length :: real
  straight_line_distance :: real
  path_efficiency :: real
  avg_curvature :: real
  max_curvature :: real
  smoothness_score :: real
  endpoint_error :: real
  min_altitude :: real
  max_altitude :: real
  avg_altitude :: real
  avg_velocity :: real

text \<open>The default constructor \<^verbatim>\<open>TrajectoryMetrics()\<close> sets all eleven fields to \<^verbatim>\<open>0.0f\<close>.\<close>

definition TrajectoryMetrics_default :: TrajectoryMetrics where
  "TrajectoryMetrics_default =
     \<lparr>path_length = 0, straight_line_distance = 0, path_efficiency = 0,
      avg_curvature = 0, max_curvature = 0, smoothness_score = 0,
      endpoint_error = 0, min_altitude = 0, max_altitude = 0, avg_altitude = 0,
      avg_velocity = 0\<rparr>"

text \<open>The literal \<^verbatim>\<open>1e-6f\<close>, as a real number.\<close>

definition epsilon :: real where
  "epsilon = 8796093 / 8796093022208"

text \<open>\<^verbatim>\<open>std::sqrt(dx*dx + dy*dy + dz*dz)\<close>, which the source writes out at every use.\<close>

definition norm3 :: "real \<Rightarrow> real \<Rightarrow> real \<Rightarrow> real" where
  "norm3 dx dy dz = sqrt (dx * dx + dy * dy + dz * dz)"

text \<open>A float division with no guard on its divisor.\<close>

definition fdiv :: "real \<Rightarrow> real \<Rightarrow> real option" where
  "fdiv a b = (if b = 0 then None else Some (a / b))"

text \<open>\<^verbatim>\<open>a += b\<close> where the operands may already be NaN: NaN propagates.\<close>

definition fadd :: "real option \<Rightarrow> real option \<Rightarrow> real option" where
  "fadd a b = (case a of None \<Rightarrow> None | Some u \<Rightarrow> (case b of None \<Rightarrow> None | Some v \<Rightarrow> Some (u + v)))"

section \<open>IEEE 754 binary32 arithmetic\<close>

text \<open>
  A \<^verbatim>\<open>float\<close> is NaN, an infinity or a finite number. The sign of a zero is not kept:
  \<open>F32 0\<close> stands for both zeros, and a nonzero number divided by zero gives the
  infinity with the sign of the dividend (as for the divisor \<open>+0\<close>). Every real number
  fits under \<open>F32\<close>; the operations below return rounded results only.
\<close>

datatype f32 = F32_NaN | F32_NegInf | F32 real | F32_PosInf

text \<open>Rounding to the nearest integer, ties to the even one.\<close>

definition round_half_even :: "real \<Rightarrow> int" where
  "round_half_even y =
     (let f = \<lfloor>y\<rfloor>; d = y - of_int f
      in if d < 1 / 2 then f else if 1 / 2 < d then f + 1 else if even f then f else f + 1)"

text \<open>
  The binary exponent of a magnitude \<open>a\<close>, kept within the exponent range of binary32:
  the \<open>e\<close> between \<open>-126\<close> and \<open>127\<close> with \<open>2\<^sup>e \<le> a < 2\<^sup>e\<^sup>+\<^sup>1\<close>, \<open>-126\<close> for the
  subnormal magnitudes and \<open>127\<close> for those beyond the range.
\<close>

fun exp_search :: "nat \<Rightarrow> int \<Rightarrow> real \<Rightarrow> int" where
  "exp_search 0 e a = e"
| "exp_search (Suc k) e a = (if a < 2 powi (e + 1) then e else exp_search k (e + 1) a)"

definition f32_exponent :: "real \<Rightarrow> int" where
  "f32_exponent a = exp_search 253 (- 126) a"

text \<open>
  Rounding of a real number to binary32, to nearest, ties to even: 24 significant bits,
  a last place of \<open>2\<^sup>-\<^sup>1\<^sup>4\<^sup>9\<close> for subnormal numbers, an infinity when the rounded
  magnitude reaches \<open>2\<^sup>1\<^sup>2\<^sup>8\<close>.
\<close>

definition round32 :: "real \<Rightarrow> f32" where
  "round32 x =
     (let e = f32_exponent \<bar>x\<bar>;
          ulp = 2 powi (e - 23);
          r = of_int (round_half_even (x / ulp)) * ulp
      in if 2 powi 128 \<le> r then F32_PosInf
         else if r \<le> - (2 powi 128) then F32_NegInf
         else F32 r)"

text \<open>
  The arithmetic operations: each one rounds its exact result once (\<^verbatim>\<open>float\<close>
  expressions evaluated in \<^verbatim>\<open>float\<close>, with no fused multiply-add).
\<close>

definition f32_is_zero :: "f32 \<Rightarrow> bool" where
  "f32_is_zero a = (a = F32 0)"

definition f32_is_negative :: "f32 \<Rightarrow> bool" where
  "f32_is_negative a = (case a of F32 r \<Rightarrow> r < 0 | F32_NegInf \<Rightarrow> True | _ \<Rightarrow> False)"

definition f32_neg :: "f32 \<Rightarrow> f32" where
  "f32_neg a = (case a of F32 r \<Rightarrow> F32 (- r) | F32_NegInf \<Rightarrow> F32_PosInf
                | F32_PosInf \<Rightarrow> F32_NegInf | F32_NaN \<Rightarrow> F32_NaN)"

definition f32_add :: "f32 \<Rightarrow> f32 \<Rightarrow> f32" where
  "f32_add a b =
     (case (a, b) of
        (F32 x, F32 y) \<Rightarrow> round32 (x + y)
      | (F32_NaN, _) \<Rightarrow> F32_NaN
      | (_, F32_NaN) \<Rightarrow> F32_NaN
      | (F32_PosInf, F32_NegInf) \<Rightarrow> F32_NaN
      | (F32_NegInf, F32_PosInf) \<Rightarrow> F32_NaN
      | (F32_PosInf, _) \<Rightarrow> F32_PosInf
      | (_, F32_PosInf) \<Rightarrow> F32_PosInf
      | (F32_NegInf, _) \<Rightarrow> F32_NegInf
      | (_, F32_NegInf) \<Rightarrow> F32_NegInf)"

definition f32_sub :: "f32 \<Rightarrow> f32 \<Rightarrow> f32" where
  "f32_sub a b = f32_add a (f32_neg b)"

definition f32_signed_inf :: "bool \<Rightarrow> f32" where
  "f32_signed_inf negative = (if negative then F32_NegInf else F32_PosInf)"

definition f32_mul :: "f32 \<Rightarrow> f32 \<Rightarrow> f32" where
  "f32_mul a b =
     (case (a, b) of
        (F32 x, F32 y) \<Rightarrow> round32 (x * y)
      | (F32_NaN, _) \<Rightarrow> F32_NaN
      | (_, F32_NaN) \<Rightarrow> F32_NaN
      | _ \<Rightarrow> if f32_is_zero a \<or> f32_is_zero b then F32_NaN
             else f32_signed_inf (f32_is_negative a \<noteq> f32_is_negative b))"

definition f32_div :: "f32 \<Rightarrow> f32 \<Rightarrow> f32" where
  "f32_div a b =
     (case (a, b) of
        (F32 x, F32 y) \<Rightarrow>
          if y = 0 then (if x = 0 then F32_NaN else f32_signed_inf (x < 0))
          else round32 (x / y)
      | (F32_NaN, _) \<Rightarrow> F32_NaN
      | (_, F32_NaN) \<Rightarrow> F32_NaN
      | (F32 x, _) \<Rightarrow> F32 0
      | (_, F32 y) \<Rightarrow> f32_signed_inf (f32_is_negative a \<noteq> (y < 0))
      | _ \<Rightarrow> F32_NaN)"

text \<open>\<^verbatim>\<open>std::sqrt\<close> on a \<^verbatim>\<open>float\<close>: the correctly rounded square root.\<close>

definition f32_sqrt :: "f32 \<Rightarrow> f32" where
  "f32_sqrt a =
     (case a of
        F32 x \<Rightarrow> if x < 0 then F32_NaN else round32 (sqrt x)
      | F32_PosInf \<Rightarrow> F32_PosInf
      | _ \<Rightarrow> F32_NaN)"

text \<open>The comparisons \<^verbatim>\<open><\<close> and \<^verbatim>\<open>>\<close>: false whenever an operand is NaN.\<close>

definition f32_lt :: "f32 \<Rightarrow> f32 \<Rightarrow> bool" where
  "f32_lt a b =
     (case (a, b) of
        (F32 x, F32 y) \<Rightarrow> x < y
      | (F32_NaN, _) \<Rightarrow> False
      | (_, F32_NaN) \<Rightarrow> False
      | (F32_NegInf, F32_NegInf) \<Rightarrow> False
      | (F32_NegInf, _) \<Rightarrow> True
      | (_, F32_PosInf) \<Rightarrow> a \<noteq> b
      | _ \<Rightarrow> False)"

definition f32_gt :: "f32 \<Rightarrow> f32 \<Rightarrow> bool" where
  "f32_gt a b = f32_lt b a"

text \<open>
  \<^verbatim>\<open>std::min(a, b)\<close> is \<^verbatim>\<open>(b < a) ? b : a\<close> and \<^verbatim>\<open>std::max(a, b)\<close> is
  \<^verbatim>\<open>(a < b) ? b : a\<close>.
\<close>

definition f32_min :: "f32 \<Rightarrow> f32 \<Rightarrow> f32" where
  "f32_min a b = (if f32_lt b a then b else a)"

definition f32_max :: "f32 \<Rightarrow> f32 \<Rightarrow> f32" where
  "f32_max a b = (if f32_lt a b then b else a)"

text \<open>The conversion of a \<^verbatim>\<open>size_t\<close> to \<^verbatim>\<open>float\<close>, where a \<^verbatim>\<open>float\<close> is divided by a size.\<close>

definition f32_of_nat :: "nat \<Rightarrow> f32" where
  "f32_of_nat n = round32 (real n)"



section \<open>Metrics Engine (trajectory\_metrics.cpp)\<close>

text \<open>A \<^verbatim>\<open>for\<close> loop over an index range is a \<open>fold\<close> over \<open>[a..<b]\<close>.\<close>

definition computePathLength :: "Trajectory \<Rightarrow> real" where
  "computePathLength trajectory =
     (if length trajectory < 2 then 0
      else fold (\<lambda>i len.
                  let p1 = trajectory ! i;
                      p2 = trajectory ! (i + 1);
                      dx = wp_x p2 - wp_x p1;
                      dy = wp_y p2 - wp_y p1;
                      dz = wp_z p2 - wp_z p1
                  in len + norm3 dx dy dz)
             [0 ..< length trajectory - 1] 0)"

definition computeStraightLineDistance :: "Trajectory \<Rightarrow> real" where
  "computeStraightLineDistance trajectory =
     (if length trajectory < 2 then 0
      else let start = hd trajectory;
               end_wp = last trajectory;
               dx = wp_x end_wp - wp_x start;
               dy = wp_y end_wp - wp_y start;
               dz = wp_z end_wp - wp_z start
           in norm3 dx dy dz)"

definition computePathEfficiency :: "Trajectory \<Rightarrow> real" where
  "computePathEfficiency trajectory =
     (if length trajectory < 2 then 1
      else let straight_line = computeStraightLineDistance trajectory;
               path_len = computePathLength trajectory
           in if path_len < epsilon then 0 else straight_line / path_len)"

text \<open>One iteration of the loop of \<^verbatim>\<open>computeCurvatures\<close>, at interior index \<open>i\<close>.\<close>

definition curvature_step :: "Trajectory \<Rightarrow> nat \<Rightarrow> real list \<Rightarrow> real list" where
  "curvature_step trajectory i curvatures =
     (let p_prev = trajectory ! (i - 1);
          p_curr = trajectory ! i;
          p_next = trajectory ! (i + 1);
          v1_x = wp_x p_curr - wp_x p_prev;
          v1_y = wp_y p_curr - wp_y p_prev;
          v1_z = wp_z p_curr - wp_z p_prev;
          norm1 = norm3 v1_x v1_y v1_z;
          v2_x = wp_x p_next - wp_x p_curr;
          v2_y = wp_y p_next - wp_y p_curr;
          v2_z = wp_z p_next - wp_z p_curr;
          norm2 = norm3 v2_x v2_y v2_z
      in if norm1 > epsilon \<and> norm2 > epsilon then
           let dot = v1_x * v2_x + v1_y * v2_y + v1_z * v2_z;
               cos_angle = dot / (norm1 * norm2);
               cos_angle = max (- 1) (min 1 cos_angle);
               angle = arccos cos_angle;
               curvature = angle / norm1
           in curvatures @ [curvature]
         else curvatures)"

definition computeCurvatures :: "Trajectory \<Rightarrow> real list" where
  "computeCurvatures trajectory =
     (if length trajectory < 3 then []
      else fold (curvature_step trajectory) [1 ..< length trajectory - 1] [])"

text \<open>\<^verbatim>\<open>std::accumulate(first, last, 0.0f)\<close> adds from the left.\<close>

definition accumulate :: "real list \<Rightarrow> real \<Rightarrow> real" where
  "accumulate xs init = fold (\<lambda>v acc. acc + v) xs init"

definition computeAverageCurvature :: "Trajectory \<Rightarrow> real" where
  "computeAverageCurvature trajectory =
     (let curvatures = computeCurvatures trajectory
      in if curvatures = [] then 0
         else let s = accumulate curvatures 0 in s / real (length curvatures))"

text \<open>\<^verbatim>\<open>*std::max_element(first, last)\<close> on a non-empty range.\<close>

definition max_element :: "real list \<Rightarrow> real" where
  "max_element xs = fold max (tl xs) (hd xs)"

definition computeMaxCurvature :: "Trajectory \<Rightarrow> real" where
  "computeMaxCurvature trajectory =
     (let curvatures = computeCurvatures trajectory
      in if curvatures = [] then 0 else max_element curvatures)"

definition computeSmoothnessScore :: "Trajectory \<Rightarrow> real" where
  "computeSmoothnessScore trajectory =
     (let avg = computeAverageCurvature trajectory in 1 / (1 + avg))"

definition computeEndpointError :: "Trajectory \<Rightarrow> Waypoint \<Rightarrow> real" where
  "computeEndpointError trajectory expected_end =
     (if trajectory = [] then 0
      else let actual_end = last trajectory;
               dx = wp_x actual_end - wp_x expected_end;
               dy = wp_y actual_end - wp_y expected_end;
               dz = wp_z actual_end - wp_z expected_end
           in norm3 dx dy dz)"

definition computeAverageVelocity :: "Trajectory \<Rightarrow> real" where
  "computeAverageVelocity trajectory =
     (if length trajectory < 2 then 0
      else let total_velocity =
                 fold (\<lambda>i total_velocity.
                         let p1 = trajectory ! i;
                             p2 = trajectory ! (i + 1);
                             dx = wp_x p2 - wp_x p1;
                             dy = wp_y p2 - wp_y p1;
                             dz = wp_z p2 - wp_z p1
                         in total_velocity + norm3 dx dy dz)
                      [0 ..< length trajectory - 1] 0
           in total_velocity / real (length trajectory - 1))"

text \<open>
  The altitude loop of \<^verbatim>\<open>evaluateTrajectory\<close>: the state is
  (\<^verbatim>\<open>metrics.min_altitude\<close>, \<^verbatim>\<open>metrics.max_altitude\<close>, \<^verbatim>\<open>sum_altitude\<close>).
\<close>

definition altitude_step :: "Waypoint \<Rightarrow> real \<times> real \<times> real \<Rightarrow> real \<times> real \<times> real" where
  "altitude_step wp st =
     (case st of (mn, mx, s) \<Rightarrow> (min mn (wp_z wp), max mx (wp_z wp), s + wp_z wp))"

definition evaluateTrajectory :: "Trajectory \<Rightarrow> Waypoint \<Rightarrow> TrajectoryMetrics" where
  "evaluateTrajectory trajectory expected_end =
     (let metrics = TrajectoryMetrics_default
      in if trajectory = [] then metrics
         else
           let metrics = metrics\<lparr>path_length := computePathLength trajectory\<rparr>;
               metrics = metrics\<lparr>straight_line_distance := computeStraightLineDistance trajectory\<rparr>;
               metrics = metrics\<lparr>path_efficiency := computePathEfficiency trajectory\<rparr>;
               metrics = metrics\<lparr>avg_curvature := computeAverageCurvature trajectory\<rparr>;
               metrics = metrics\<lparr>max_curvature := computeMaxCurvature trajectory\<rparr>;
               metrics = metrics\<lparr>smoothness_score := computeSmoothnessScore trajectory\<rparr>;
               metrics = metrics\<lparr>endpoint_error := computeEndpointError trajectory expected_end\<rparr>;
               metrics = metrics\<lparr>avg_velocity := computeAverageVelocity trajectory\<rparr>;
               z0 = wp_z (trajectory ! 0)
           in case fold altitude_step trajectory (z0, z0, 0) of
                (mn, mx, sum_altitude) \<Rightarrow>
                  metrics\<lparr>min_altitude := mn, max_altitude := mx,
                          avg_altitude := sum_altitude / real (length trajectory)\<rparr>)"

text \<open>
  The body of the two inner loops of \<^verbatim>\<open>computeDiversity\<close> for one pair: the summed
  per-index waypoint distance over the shorter length, then \<^verbatim>\<open>distance /= min_len\<close>,
  a division with no guard.
\<close>

definition pair_distance :: "Trajectory \<Rightarrow> Trajectory \<Rightarrow> real option" where
  "pair_distance traj1 traj2 =
     (let min_len = min (length traj1) (length traj2);
          distance = fold (\<lambda>k distance.
                             let dx = wp_x (traj1 ! k) - wp_x (traj2 ! k);
                                 dy = wp_y (traj1 ! k) - wp_y (traj2 ! k);
                                 dz = wp_z (traj1 ! k) - wp_z (traj2 ! k)
                             in distance + norm3 dx dy dz)
                          [0 ..< min_len] 0
      in fdiv distance (real min_len))"

text \<open>
  The loop state is (\<^verbatim>\<open>total_distance\<close>, \<^verbatim>\<open>n_pairs\<close>). \<^verbatim>\<open>n_pairs\<close> is a C++
  \<^verbatim>\<open>int\<close>, counted here without the overflow that more than \<open>2 ^ 31 - 1\<close> pairs
  would cause.
\<close>

definition diversity_inner :: "Trajectory list \<Rightarrow> nat \<Rightarrow> real option \<times> int \<Rightarrow> real option \<times> int" where
  "diversity_inner trajectories i st =
     fold (\<lambda>j st'. case st' of (total_distance, n_pairs) \<Rightarrow>
             (fadd total_distance (pair_distance (trajectories ! i) (trajectories ! j)),
              n_pairs + 1))
          [i + 1 ..< length trajectories] st"

definition computeDiversity :: "Trajectory list \<Rightarrow> real option" where
  "computeDiversity trajectories =
     (if length trajectories < 2 then Some 0
      else case fold (diversity_inner trajectories) [0 ..< length trajectories] (Some 0, 0) of
             (total_distance, n_pairs) \<Rightarrow>
               if n_pairs > 0
               then (case total_distance of
                       None \<Rightarrow> None
                     | Some td \<Rightarrow> Some (td / real_of_int n_pairs))
               else Some 0)"

text \<open>
  The diversity in the words of the specification: the average, over all unordered
  pairs \<open>i < j\<close> of trajectories, of the mean per-index waypoint distance over the
  shorter of the two lengths; 0 for fewer than 2 trajectories.
\<close>

definition mean_waypoint_distance :: "Trajectory \<Rightarrow> Trajectory \<Rightarrow> real" where
  "mean_waypoint_distance t1 t2 =
     (\<Sum>k<min (length t1) (length t2).
         norm3 (wp_x (t1 ! k) - wp_x (t2 ! k)) (wp_y (t1 ! k) - wp_y (t2 ! k))
               (wp_z (t1 ! k) - wp_z (t2 ! k)))
     / real (min (length t1) (length t2))"

definition unordered_pairs :: "nat \<Rightarrow> (nat \<times> nat) list" where
  "unordered_pairs n = concat (map (\<lambda>i. map (Pair i) [i + 1 ..< n]) [0 ..< n])"

definition diversity_spec :: "Trajectory list \<Rightarrow> real" where
  "diversity_spec ts =
     (if length ts < 2 then 0
      else sum_list (map (\<lambda>(i, j). mean_waypoint_distance (ts ! i) (ts ! j))
                         (unordered_pairs (length ts)))
           / real (length (unordered_pairs (length ts))))"

section \<open>Metrics Engine in binary32 (trajectory\_metrics.cpp)\<close>

text \<open>
  The same functions once more, operation by operation in binary32. \<^verbatim>\<open>std::acos\<close> on a
  \<^verbatim>\<open>float\<close> is a function of the C library, whose rounding the language does not fix; it
  is the parameter \<open>acosf\<close>.
\<close>

record Waypoint_f32 =
  x32 :: f32
  y32 :: f32
  z32 :: f32

type_synonym Trajectory_f32 = "Waypoint_f32 list"

record TrajectoryMetrics_f32 =
  path_length_f32 :: f32
  straight_line_distance_f32 :: f32
  path_efficiency_f32 :: f32
  avg_curvature_f32 :: f32
  max_curvature_f32 :: f32
  smoothness_score_f32 :: f32
  endpoint_error_f32 :: f32
  min_altitude_f32 :: f32
  max_altitude_f32 :: f32
  avg_altitude_f32 :: f32
  avg_velocity_f32 :: f32

definition TrajectoryMetrics_f32_default :: TrajectoryMetrics_f32 where
  "TrajectoryMetrics_f32_default =
     \<lparr>path_length_f32 = F32 0, straight_line_distance_f32 = F32 0, path_efficiency_f32 = F32 0,
      avg_curvature_f32 = F32 0, max_curvature_f32 = F32 0, smoothness_score_f32 = F32 0,
      endpoint_error_f32 = F32 0, min_altitude_f32 = F32 0, max_altitude_f32 = F32 0,
      avg_altitude_f32 = F32 0, avg_velocity_f32 = F32 0\<rparr>"

text \<open>The literal \<^verbatim>\<open>1e-6f\<close>.\<close>

definition epsilon_f32 :: f32 where
  "epsilon_f32 = F32 (8796093 / 8796093022208)"

definition norm3_f32 :: "f32 \<Rightarrow> f32 \<Rightarrow> f32 \<Rightarrow> f32" where
  "norm3_f32 dx dy dz =
     f32_sqrt (f32_add (f32_add (f32_mul dx dx) (f32_mul dy dy)) (f32_mul dz dz))"

definition computePathLength_f32 :: "Trajectory_f32 \<Rightarrow> f32" where
  "computePathLength_f32 trajectory =
     (if length trajectory < 2 then F32 0
      else fold (\<lambda>i len.
                  let p1 = trajectory ! i;
                      p2 = trajectory ! (i + 1);
                      dx = f32_sub (x32 p2) (x32 p1);
                      dy = f32_sub (y32 p2) (y32 p1);
                      dz = f32_sub (z32 p2) (z32 p1)
                  in f32_add len (norm3_f32 dx dy dz))
             [0 ..< length trajectory - 1] (F32 0))"

definition computeStraightLineDistance_f32 :: "Trajectory_f32 \<Rightarrow> f32" where
  "computeStraightLineDistance_f32 trajectory =
     (if length trajectory < 2 then F32 0
      else let start = hd trajectory;
               end_wp = last trajectory;
               dx = f32_sub (x32 end_wp) (x32 start);
               dy = f32_sub (y32 end_wp) (y32 start);
               dz = f32_sub (z32 end_wp) (z32 start)
           in norm3_f32 dx dy dz)"

definition computePathEfficiency_f32 :: "Trajectory_f32 \<Rightarrow> f32" where
  "computePathEfficiency_f32 trajectory =
     (if length trajectory < 2 then F32 1
      else let straight_line = computeStraightLineDistance_f32 trajectory;
               path_len = computePathLength_f32 trajectory
           in if f32_lt path_len epsilon_f32 then F32 0 else f32_div straight_line path_len)"

definition curvature_step_f32 ::
  "(f32 \<Rightarrow> f32) \<Rightarrow> Trajectory_f32 \<Rightarrow> nat \<Rightarrow> f32 list \<Rightarrow> f32 list" where
  "curvature_step_f32 acosf trajectory i curvatures =
     (let p_prev = trajectory ! (i - 1);
          p_curr = trajectory ! i;
          p_next = trajectory ! (i + 1);
          v1_x = f32_sub (x32 p_curr) (x32 p_prev);
          v1_y = f32_sub (y32 p_curr) (y32 p_prev);
          v1_z = f32_sub (z32 p_curr) (z32 p_prev);
          norm1 = norm3_f32 v1_x v1_y v1_z;
          v2_x = f32_sub (x32 p_next) (x32 p_curr);
          v2_y = f32_sub (y32 p_next) (y32 p_curr);
          v2_z = f32_sub (z32 p_next) (z32 p_curr);
          norm2 = norm3_f32 v2_x v2_y v2_z
      in if f32_gt norm1 epsilon_f32 \<and> f32_gt norm2 epsilon_f32 then
           let dot = f32_add (f32_add (f32_mul v1_x v2_x) (f32_mul v1_y v2_y)) (f32_mul v1_z v2_z);
               cos_angle = f32_div dot (f32_mul norm1 norm2);
               cos_angle = f32_max (F32 (- 1)) (f32_min (F32 1) cos_angle);
               angle = acosf cos_angle;
               curvature = f32_div angle norm1
           in curvatures @ [curvature]
         else curvatures)"

definition computeCurvatures_f32 :: "(f32 \<Rightarrow> f32) \<Rightarrow> Trajectory_f32 \<Rightarrow> f32 list" where
  "computeCurvatures_f32 acosf trajectory =
     (if length trajectory < 3 then []
      else fold (curvature_step_f32 acosf trajectory) [1 ..< length trajectory - 1] [])"

definition accumulate_f32 :: "f32 list \<Rightarrow> f32 \<Rightarrow> f32" where
  "accumulate_f32 xs init = fold (\<lambda>v acc. f32_add acc v) xs init"

definition computeAverageCurvature_f32 :: "(f32 \<Rightarrow> f32) \<Rightarrow> Trajectory_f32 \<Rightarrow> f32" where
  "computeAverageCurvature_f32 acosf trajectory =
     (let curvatures = computeCurvatures_f32 acosf trajectory
      in if curvatures = [] then F32 0
         else let s = accumulate_f32 curvatures (F32 0)
              in f32_div s (f32_of_nat (length curvatures)))"

text \<open>
  \<^verbatim>\<open>*std::max_element(first, last)\<close> on a non-empty range: the first element that no
  later one exceeds.
\<close>

definition max_element_f32 :: "f32 list \<Rightarrow> f32" where
  "max_element_f32 xs = fold (\<lambda>v largest. if f32_lt largest v then v else largest) (tl xs) (hd xs)"

definition computeMaxCurvature_f32 :: "(f32 \<Rightarrow> f32) \<Rightarrow> Trajectory_f32 \<Rightarrow> f32" where
  "computeMaxCurvature_f32 acosf trajectory =
     (let curvatures = computeCurvatures_f32 acosf trajectory
      in if curvatures = [] then F32 0 else max_element_f32 curvatures)"

definition computeSmoothnessScore_f32 :: "(f32 \<Rightarrow> f32) \<Rightarrow> Trajectory_f32 \<Rightarrow> f32" where
  "computeSmoothnessScore_f32 acosf trajectory =
     (let avg = computeAverageCurvature_f32 acosf trajectory
      in f32_div (F32 1) (f32_add (F32 1) avg))"

definition computeEndpointError_f32 :: "Trajectory_f32 \<Rightarrow> Waypoint_f32 \<Rightarrow> f32" where
  "computeEndpointError_f32 trajectory expected_end =
     (if trajectory = [] then F32 0
      else let actual_end = last trajectory;
               dx = f32_sub (x32 actual_end) (x32 expected_end);
               dy = f32_sub (y32 actual_end) (y32 expected_end);
               dz = f32_sub (z32 actual_end) (z32 expected_end)
           in norm3_f32 dx dy dz)"

definition computeAverageVelocity_f32 :: "Trajectory_f32 \<Rightarrow> f32" where
  "computeAverageVelocity_f32 trajectory =
     (if length trajectory < 2 then F32 0
      else let total_velocity =
                 fold (\<lambda>i total_velocity.
                         let p1 = trajectory ! i;
                             p2 = trajectory ! (i + 1);
                             dx = f32_sub (x32 p2) (x32 p1);
                             dy = f32_sub (y32 p2) (y32 p1);
                             dz = f32_sub (z32 p2) (z32 p1)
                         in f32_add total_velocity (norm3_f32 dx dy dz))
                      [0 ..< length trajectory - 1] (F32 0)
           in f32_div total_velocity (f32_of_nat (length trajectory - 1)))"

definition altitude_step_f32 :: "Waypoint_f32 \<Rightarrow> f32 \<times> f32 \<times> f32 \<Rightarrow> f32 \<times> f32 \<times> f32" where
  "altitude_step_f32 wp st =
     (case st of (mn, mx, s) \<Rightarrow> (f32_min mn (z32 wp), f32_max mx (z32 wp), f32_add s (z32 wp)))"

definition evaluateTrajectory_f32 ::
  "(f32 \<Rightarrow> f32) \<Rightarrow> Trajectory_f32 \<Rightarrow> Waypoint_f32 \<Rightarrow> TrajectoryMetrics_f32" where
  "evaluateTrajectory_f32 acosf trajectory expected_end =
     (let metrics = TrajectoryMetrics_f32_default
      in if trajectory = [] then metrics
         else
           let metrics = metrics\<lparr>path_length_f32 := computePathLength_f32 trajectory\<rparr>;
               metrics = metrics\<lparr>straight_line_distance_f32 :=
                                   computeStraightLineDistance_f32 trajectory\<rparr>;
               metrics = metrics\<lparr>path_efficiency_f32 := computePathEfficiency_f32 trajectory\<rparr>;
               metrics = metrics\<lparr>avg_curvature_f32 := computeAverageCurvature_f32 acosf trajectory\<rparr>;
               metrics = metrics\<lparr>max_curvature_f32 := computeMaxCurvature_f32 acosf trajectory\<rparr>;
               metrics = metrics\<lparr>smoothness_score_f32 := computeSmoothnessScore_f32 acosf trajectory\<rparr>;
               metrics = metrics\<lparr>endpoint_error_f32 :=
                                   computeEndpointError_f32 trajectory expected_end\<rparr>;
               metrics = metrics\<lparr>avg_velocity_f32 := computeAverageVelocity_f32 trajectory\<rparr>;
               z0 = z32 (trajectory ! 0)
           in case fold altitude_step_f32 trajectory (z0, z0, F32 0) of
                (mn, mx, sum_altitude) \<Rightarrow>
                  metrics\<lparr>min_altitude_f32 := mn, max_altitude_f32 := mx,
                          avg_altitude_f32 :=
                            f32_div sum_altitude (f32_of_nat (length trajectory))\<rparr>)"

section \<open>Ranking Selector (trajectory\_metrics.cpp)\<close>

text \<open>
  The score expression \<^verbatim>\<open>w1 * metrics.path_efficiency + w2 * metrics.smoothness_score
  - w3 * (metrics.endpoint_error / 100.0f)\<close>, evaluated from the left in \<^verbatim>\<open>float\<close>.
\<close>

definition quality_score :: "f32 \<Rightarrow> f32 \<Rightarrow> f32 \<Rightarrow> TrajectoryMetrics_f32 \<Rightarrow> f32" where
  "quality_score w1 w2 w3 metrics =
     f32_sub (f32_add (f32_mul w1 (path_efficiency_f32 metrics))
                      (f32_mul w2 (smoothness_score_f32 metrics)))
             (f32_mul w3 (f32_div (endpoint_error_f32 metrics) (F32 100)))"

text \<open>The first loop of \<^verbatim>\<open>rankTrajectories\<close>: the vector of (score, index) pairs.\<close>

definition trajectory_scores ::
  "(f32 \<Rightarrow> f32) \<Rightarrow> Trajectory_f32 list \<Rightarrow> Waypoint_f32 \<Rightarrow> f32 \<Rightarrow> f32 \<Rightarrow> f32 \<Rightarrow> (f32 \<times> nat) list" where
  "trajectory_scores acosf trajectories expected_end w1 w2 w3 =
     fold (\<lambda>i scores.
             let metrics = evaluateTrajectory_f32 acosf (trajectories ! i) expected_end;
                 score = quality_score w1 w2 w3 metrics
             in scores @ [(score, i)])
          [0 ..< length trajectories] []"

text \<open>The comparator \<^verbatim>\<open>[](const auto& a, const auto& b) { return a.first > b.first; }\<close>.\<close>

definition score_greater :: "f32 \<times> nat \<Rightarrow> f32 \<times> nat \<Rightarrow> bool" where
  "score_greater a b = f32_gt (fst a) (fst b)"

text \<open>
  \<^verbatim>\<open>std::sort(first, last, comp)\<close> is library code. The C++ standard requires of the
  comparator that it induces a strict weak ordering on the elements: irreflexive,
  transitive, with a transitive incomparability. A NaN score breaks the last
  requirement, since NaN is incomparable with every score.
\<close>

definition strict_weak_order_on :: "'a set \<Rightarrow> ('a \<Rightarrow> 'a \<Rightarrow> bool) \<Rightarrow> bool" where
  "strict_weak_order_on A cmp =
     ((\<forall>a \<in> A. \<not> cmp a a)
      \<and> (\<forall>a \<in> A. \<forall>b \<in> A. \<forall>c \<in> A. cmp a b \<and> cmp b c \<longrightarrow> cmp a c)
      \<and> (\<forall>a \<in> A. \<forall>b \<in> A. \<forall>c \<in> A.
            \<not> cmp a b \<and> \<not> cmp b a \<and> \<not> cmp b c \<and> \<not> cmp c b \<longrightarrow> \<not> cmp a c \<and> \<not> cmp c a))"

text \<open>
  When the requirement holds, the standard promises that the range afterwards holds the
  same elements, sorted with respect to the comparator (no later element is
  \<open>cmp\<close>-before an earlier one), and that the order of equivalent elements is not
  guaranteed to be preserved: \<open>std_sort cmp xs\<close> is the set of the results that every
  conforming implementation stays within. When the requirement does not hold the
  behaviour is undefined (\<open>None\<close>).
\<close>

definition std_sort :: "('a \<Rightarrow> 'a \<Rightarrow> bool) \<Rightarrow> 'a list \<Rightarrow> 'a list set option" where
  "std_sort cmp xs =
     (if strict_weak_order_on (set xs) cmp
      then Some {ys. mset ys = mset xs \<and> sorted_wrt (\<lambda>a b. \<not> cmp b a) ys}
      else None)"

text \<open>The last loop of \<^verbatim>\<open>rankTrajectories\<close>: the indices of the sorted pairs.\<close>

definition ranked_indices :: "(f32 \<times> nat) list \<Rightarrow> nat list" where
  "ranked_indices scores = fold (\<lambda>pair ranked. ranked @ [snd pair]) scores []"

text \<open>\<^verbatim>\<open>rankTrajectories\<close> with any conforming \<^verbatim>\<open>std::sort\<close>.\<close>

definition rankTrajectories ::
  "(f32 \<Rightarrow> f32) \<Rightarrow> Trajectory_f32 list \<Rightarrow> Waypoint_f32 \<Rightarrow> f32 \<Rightarrow> f32 \<Rightarrow> f32 \<Rightarrow> nat list set option" where
  "rankTrajectories acosf trajectories expected_end w1 w2 w3 =
     (case std_sort score_greater (trajectory_scores acosf trajectories expected_end w1 w2 w3) of
        None \<Rightarrow> None
      | Some sorted_scores \<Rightarrow> Some (ranked_indices ` sorted_scores))"

text \<open>
  What one implementation does: \<^verbatim>\<open>std::sort\<close> of the GNU C++ library (libstdc++,
  \<^verbatim>\<open>bits/stl_algo.h\<close>), an introsort. \<^verbatim>\<open>std::__sort\<close> runs \<^verbatim>\<open>__introsort_loop\<close> with the
  depth limit \<open>2 * lg n\<close> and then \<^verbatim>\<open>__final_insertion_sort\<close>; ranges of more than 16
  elements are partitioned around the median of three elements, shorter ones are left to
  the insertion sort. The vector is a list and an iterator is an index into it. The
  partition and the unguarded insertion rely on the comparator to stay inside the range;
  a read outside the vector is \<open>ReadOutOfRange\<close>. The heap sort that takes over when the
  depth limit is used up is not modelled (\<open>HeapsortFallback\<close>).
\<close>

datatype sort_failure = ReadOutOfRange | HeapsortFallback

text \<open>\<^verbatim>\<open>std::iter_swap\<close>.\<close>

definition iter_swap :: "'a list \<Rightarrow> nat \<Rightarrow> nat \<Rightarrow> 'a list" where
  "iter_swap xs i j = xs[i := xs ! j, j := xs ! i]"

text \<open>\<^verbatim>\<open>std::__move_median_to_first(result, a, b, c, comp)\<close>.\<close>

definition move_median_to_first ::
  "('a \<Rightarrow> 'a \<Rightarrow> bool) \<Rightarrow> 'a list \<Rightarrow> nat \<Rightarrow> nat \<Rightarrow> nat \<Rightarrow> nat \<Rightarrow> 'a list" where
  "move_median_to_first cmp xs result a b c =
     (if cmp (xs ! a) (xs ! b) then
        (if cmp (xs ! b) (xs ! c) then iter_swap xs result b
         else if cmp (xs ! a) (xs ! c) then iter_swap xs result c
         else iter_swap xs result a)
      else if cmp (xs ! a) (xs ! c) then iter_swap xs result a
      else if cmp (xs ! b) (xs ! c) then iter_swap xs result c
      else iter_swap xs result b)"

text \<open>
  \<^verbatim>\<open>std::__unguarded_partition(first, last, pivot, comp)\<close>. Its two inner loops are
  \<^verbatim>\<open>while (comp(first, pivot)) ++first;\<close> and \<^verbatim>\<open>while (comp(pivot, last)) --last;\<close>.
\<close>

function scan_up :: "('a \<Rightarrow> 'a \<Rightarrow> bool) \<Rightarrow> 'a list \<Rightarrow> nat \<Rightarrow> nat \<Rightarrow> nat option" where
  "scan_up cmp xs pivot first =
     (if length xs \<le> first then None
      else if cmp (xs ! first) (xs ! pivot) then scan_up cmp xs pivot (first + 1)
      else Some first)"
  by pat_completeness auto
termination
  by (relation "measure (\<lambda>(cmp, xs, pivot, first). length xs - first)") auto

declare scan_up.simps [simp del]

fun scan_down :: "('a \<Rightarrow> 'a \<Rightarrow> bool) \<Rightarrow> 'a list \<Rightarrow> nat \<Rightarrow> nat \<Rightarrow> nat option" where
  "scan_down cmp xs pivot 0 = (if cmp (xs ! pivot) (xs ! 0) then None else Some 0)"
| "scan_down cmp xs pivot (Suc l) =
     (if cmp (xs ! pivot) (xs ! Suc l) then scan_down cmp xs pivot l else Some (Suc l))"

function unguarded_partition ::
  "('a \<Rightarrow> 'a \<Rightarrow> bool) \<Rightarrow> 'a list \<Rightarrow> nat \<Rightarrow> nat \<Rightarrow> nat \<Rightarrow> sort_failure + 'a list \<times> nat" where
  "unguarded_partition cmp xs first lst pivot =
     (case scan_up cmp xs pivot first of
        None \<Rightarrow> Inl ReadOutOfRange
      | Some first' \<Rightarrow>
          if lst = 0 then Inl ReadOutOfRange
          else (case scan_down cmp xs pivot (lst - 1) of
                  None \<Rightarrow> Inl ReadOutOfRange
                | Some lst' \<Rightarrow>
                    if \<not> first' < lst' then Inr (xs, first')
                    else unguarded_partition cmp (iter_swap xs first' lst') (first' + 1) lst' pivot))"
  by pat_completeness auto
termination
proof (relation "measure (\<lambda>(cmp, xs, first, lst, pivot). lst)")
  show "wf (measure (\<lambda>(cmp, xs, first, lst, pivot). lst))" by simp
next
  fix cmp :: "'a \<Rightarrow> 'a \<Rightarrow> bool" and xs :: "'a list" and first lst pivot first' lst' :: nat
  assume "lst \<noteq> 0" and sd: "scan_down cmp xs pivot (lst - 1) = Some lst'"
  have "l' \<le> l" if "scan_down cmp xs pivot l = Some l'" for l l'
    using that by (induction l) (auto split: if_splits)
  from this [OF sd] \<open>lst \<noteq> 0\<close>
  show "((cmp, iter_swap xs first' lst', first' + 1, lst', pivot), cmp, xs, first, lst, pivot)
        \<in> measure (\<lambda>(cmp, xs, first, lst, pivot). lst)"
    by simp
qed

declare unguarded_partition.simps [simp del]

text \<open>\<^verbatim>\<open>std::__unguarded_partition_pivot(first, last, comp)\<close>.\<close>

definition unguarded_partition_pivot ::
  "('a \<Rightarrow> 'a \<Rightarrow> bool) \<Rightarrow> 'a list \<Rightarrow> nat \<Rightarrow> nat \<Rightarrow> sort_failure + 'a list \<times> nat" where
  "unguarded_partition_pivot cmp xs first lst =
     (let mid = first + (lst - first) div 2;
          xs' = move_median_to_first cmp xs first (first + 1) mid (lst - 1)
      in unguarded_partition cmp xs' (first + 1) lst first)"

text \<open>
  \<^verbatim>\<open>std::__introsort_loop(first, last, depth_limit, comp)\<close>: the loop sorts the right
  part by a recursive call and goes on with the left part.
\<close>

fun introsort_loop ::
  "('a \<Rightarrow> 'a \<Rightarrow> bool) \<Rightarrow> nat \<Rightarrow> 'a list \<Rightarrow> nat \<Rightarrow> nat \<Rightarrow> sort_failure + 'a list" where
  "introsort_loop cmp 0 xs first lst =
     (if lst - first > 16 then Inl HeapsortFallback else Inr xs)"
| "introsort_loop cmp (Suc depth_limit) xs first lst =
     (if lst - first > 16 then
        (case unguarded_partition_pivot cmp xs first lst of
           Inl f \<Rightarrow> Inl f
         | Inr (xs', cut_ix) \<Rightarrow>
             (case introsort_loop cmp depth_limit xs' cut_ix lst of
                Inl f \<Rightarrow> Inl f
              | Inr xs'' \<Rightarrow> introsort_loop cmp depth_limit xs'' first cut_ix))
      else Inr xs)"

text \<open>
  \<^verbatim>\<open>std::__unguarded_linear_insert(last, comp)\<close>, with the value \<open>val\<close> taken from the
  position \<open>last\<close> before the loop.
\<close>

fun unguarded_linear_insert ::
  "('a \<Rightarrow> 'a \<Rightarrow> bool) \<Rightarrow> 'a \<Rightarrow> 'a list \<Rightarrow> nat \<Rightarrow> sort_failure + 'a list" where
  "unguarded_linear_insert cmp val xs 0 = Inl ReadOutOfRange"
| "unguarded_linear_insert cmp val xs (Suc next) =
     (if cmp val (xs ! next)
      then unguarded_linear_insert cmp val (xs[Suc next := xs ! next]) next
      else Inr (xs[Suc next := val]))"

text \<open>
  The body of the loop of \<^verbatim>\<open>std::__insertion_sort(first, last, comp)\<close> at position \<open>i\<close>:
  an element that goes before the first one is moved there, the others are inserted
  unguarded.
\<close>

definition insertion_step ::
  "('a \<Rightarrow> 'a \<Rightarrow> bool) \<Rightarrow> nat \<Rightarrow> nat \<Rightarrow> 'a list \<Rightarrow> sort_failure + 'a list" where
  "insertion_step cmp first i xs =
     (if cmp (xs ! i) (xs ! first)
      then Inr (take first xs @ [xs ! i] @ take (i - first) (drop first xs) @ drop (i + 1) xs)
      else unguarded_linear_insert cmp (xs ! i) xs i)"

definition insertion_sort ::
  "('a \<Rightarrow> 'a \<Rightarrow> bool) \<Rightarrow> 'a list \<Rightarrow> nat \<Rightarrow> nat \<Rightarrow> sort_failure + 'a list" where
  "insertion_sort cmp xs first lst =
     (if first = lst then Inr xs
      else fold (\<lambda>i r. case r of Inl f \<Rightarrow> Inl f | Inr ys \<Rightarrow> insertion_step cmp first i ys)
             [first + 1 ..< lst] (Inr xs))"

definition unguarded_insertion_sort ::
  "('a \<Rightarrow> 'a \<Rightarrow> bool) \<Rightarrow> 'a list \<Rightarrow> nat \<Rightarrow> nat \<Rightarrow> sort_failure + 'a list" where
  "unguarded_insertion_sort cmp xs first lst =
     fold (\<lambda>i r. case r of Inl f \<Rightarrow> Inl f | Inr ys \<Rightarrow> unguarded_linear_insert cmp (ys ! i) ys i)
       [first ..< lst] (Inr xs)"

text \<open>\<^verbatim>\<open>std::__final_insertion_sort(first, last, comp)\<close>.\<close>

definition final_insertion_sort ::
  "('a \<Rightarrow> 'a \<Rightarrow> bool) \<Rightarrow> 'a list \<Rightarrow> nat \<Rightarrow> nat \<Rightarrow> sort_failure + 'a list" where
  "final_insertion_sort cmp xs first lst =
     (if lst - first > 16
      then (case insertion_sort cmp xs first (first + 16) of
              Inl f \<Rightarrow> Inl f
            | Inr ys \<Rightarrow> unguarded_insertion_sort cmp ys (first + 16) lst)
      else insertion_sort cmp xs first lst)"

text \<open>\<^verbatim>\<open>std::__lg(n)\<close>: the binary logarithm, rounded down.\<close>

function lg :: "nat \<Rightarrow> nat" where
  "lg n = (if n < 2 then 0 else 1 + lg (n div 2))"
  by pat_completeness auto
termination
  by (relation "measure id") auto

declare lg.simps [simp del]

text \<open>\<^verbatim>\<open>std::__sort(first, last, comp)\<close>.\<close>

definition libstdcxx_sort :: "('a \<Rightarrow> 'a \<Rightarrow> bool) \<Rightarrow> 'a list \<Rightarrow> sort_failure + 'a list" where
  "libstdcxx_sort cmp xs =
     (if xs = [] then Inr xs
      else case introsort_loop cmp (lg (length xs) * 2) xs 0 (length xs) of
             Inl f \<Rightarrow> Inl f
           | Inr ys \<Rightarrow> final_insertion_sort cmp ys 0 (length ys))"

text \<open>\<^verbatim>\<open>rankTrajectories\<close> with the \<^verbatim>\<open>std::sort\<close> of libstdc++.\<close>

definition rankTrajectories_libstdcxx ::
  "(f32 \<Rightarrow> f32) \<Rightarrow> Trajectory_f32 list \<Rightarrow> Waypoint_f32 \<Rightarrow> f32 \<Rightarrow> f32 \<Rightarrow> f32 \<Rightarrow> sort_failure + nat list" where
  "rankTrajectories_libstdcxx acosf trajectories expected_end w1 w2 w3 =
     (case libstdcxx_sort score_greater
             (trajectory_scores acosf trajectories expected_end w1 w2 w3) of
        Inl f \<Rightarrow> Inl f
      | Inr sorted_scores \<Rightarrow> Inr (ranked_indices sorted_scores))"

text \<open>The score that \<^verbatim>\<open>rankTrajectories\<close> gives to the candidate at index \<open>i\<close>.\<close>

definition candidate_score ::
  "(f32 \<Rightarrow> f32) \<Rightarrow> Trajectory_f32 list \<Rightarrow> Waypoint_f32 \<Rightarrow> f32 \<Rightarrow> f32 \<Rightarrow> f32 \<Rightarrow> nat \<Rightarrow> f32" where
  "candidate_score acosf trajectories expected_end w1 w2 w3 i =
     quality_score w1 w2 w3 (evaluateTrajectory_f32 acosf (trajectories ! i) expected_end)"

text \<open>
  The tie-breaking rule of the specification, as a predicate on a ranking: of two
  indices with equal scores the smaller one stands first.
\<close>

definition ties_by_ascending_index :: "(nat \<Rightarrow> f32) \<Rightarrow> nat list \<Rightarrow> bool" where
  "ties_by_ascending_index score out = sorted_wrt (\<lambda>i j. score i \<noteq> score j \<or> i < j) out"

text \<open>
  A key that orders the scores other than NaN as \<^verbatim>\<open><\<close> does, for the proof that a
  sorted result exists.
\<close>

definition f32_key :: "f32 \<Rightarrow> nat \<times> real" where
  "f32_key a = (case a of F32_NegInf \<Rightarrow> (0, 0) | F32 r \<Rightarrow> (1, r) | F32_PosInf \<Rightarrow> (2, 0)
                | F32_NaN \<Rightarrow> (3, 0))"

section \<open>Straight trajectories\<close>

text \<open>
  A perfectly straight trajectory, for the statement of the specification about path
  efficiency: the waypoints \<open>p + s * d\<close> on the line through \<open>p\<close> with direction \<open>d\<close>,
  for parameters \<open>s\<close> that never decrease along the trajectory.
\<close>

definition point_on_line :: "Waypoint \<Rightarrow> Waypoint \<Rightarrow> real \<Rightarrow> Waypoint" where
  "point_on_line p d s =
     \<lparr>wp_x = wp_x p + s * wp_x d, wp_y = wp_y p + s * wp_y d, wp_z = wp_z p + s * wp_z d\<rparr>"

definition straight_trajectory :: "Waypoint \<Rightarrow> Waypoint \<Rightarrow> real list \<Rightarrow> Trajectory" where
  "straight_trajectory p d ss = map (point_on_line p d) ss"




section \<open>Utility functions of trajectory\_inference.cpp\<close>

text \<open>
  trajectory\_inference.cpp defines \<^verbatim>\<open>computePathLength\<close>, \<^verbatim>\<open>computeAverageCurvature\<close>
  and \<^verbatim>\<open>computeSmoothnessScore\<close> a second time; the suffix \<open>_inference\<close> tells the
  two sets apart.
\<close>

definition computePathLength_inference :: "Trajectory \<Rightarrow> real" where
  "computePathLength_inference trajectory =
     fold (\<lambda>i len.
             let dx = wp_x (trajectory ! i) - wp_x (trajectory ! (i - 1));
                 dy = wp_y (trajectory ! i) - wp_y (trajectory ! (i - 1));
                 dz = wp_z (trajectory ! i) - wp_z (trajectory ! (i - 1))
             in len + norm3 dx dy dz)
          [1 ..< length trajectory] 0"

definition curvature_step_inference :: "Trajectory \<Rightarrow> nat \<Rightarrow> real list \<Rightarrow> real list" where
  "curvature_step_inference trajectory i curvatures =
     (let v1x = wp_x (trajectory ! i) - wp_x (trajectory ! (i - 1));
          v1y = wp_y (trajectory ! i) - wp_y (trajectory ! (i - 1));
          v1z = wp_z (trajectory ! i) - wp_z (trajectory ! (i - 1));
          v2x = wp_x (trajectory ! (i + 1)) - wp_x (trajectory ! i);
          v2y = wp_y (trajectory ! (i + 1)) - wp_y (trajectory ! i);
          v2z = wp_z (trajectory ! (i + 1)) - wp_z (trajectory ! i);
          norm1 = norm3 v1x v1y v1z;
          norm2 = norm3 v2x v2y v2z
      in if norm1 > epsilon \<and> norm2 > epsilon then
           let dot = v1x * v2x + v1y * v2y + v1z * v2z;
               cos_angle = dot / (norm1 * norm2);
               cos_angle = max (- 1) (min 1 cos_angle);
               angle = arccos cos_angle;
               curvature = angle / norm1
           in curvatures @ [curvature]
         else curvatures)"

definition computeAverageCurvature_inference :: "Trajectory \<Rightarrow> real" where
  "computeAverageCurvature_inference trajectory =
     (if length trajectory < 3 then 0
      else let curvatures =
                 fold (curvature_step_inference trajectory) [1 ..< length trajectory - 1] []
           in if curvatures = [] then 0
              else let s = accumulate curvatures 0 in s / real (length curvatures))"

definition computeSmoothnessScore_inference :: "Trajectory \<Rightarrow> real" where
  "computeSmoothnessScore_inference trajectory =
     (let avg = computeAverageCurvature_inference trajectory in 1 / (1 + avg))"

section \<open>Coordinate Normalizer (trajectory\_inference.cpp)\<close>

text \<open>\<^verbatim>\<open>std::array<float, 3>\<close>; the source reads and writes it at the indices 0, 1, 2 only.\<close>

datatype array3 = Array3 (a0: real) (a1: real) (a2: real)

definition set3 :: "array3 \<Rightarrow> nat \<Rightarrow> real \<Rightarrow> array3" where
  "set3 arr idx v =
     (if idx = 0 then Array3 v (a1 arr) (a2 arr)
      else if idx = 1 then Array3 (a0 arr) v (a2 arr)
      else if idx = 2 then Array3 (a0 arr) (a1 arr) v
      else arr)"

record NormalizationParams =
  mean :: array3
  std :: array3

text \<open>The default constructor \<^verbatim>\<open>NormalizationParams()\<close>: the identity normalization.\<close>

definition NormalizationParams_default :: NormalizationParams where
  "NormalizationParams_default = \<lparr>mean = Array3 0 0 0, std = Array3 1 1 1\<rparr>"

text \<open>
  \<^verbatim>\<open>normalize\<close> (here \<open>normalize_wp\<close>) divides by \<^verbatim>\<open>std[i]\<close> with no guard: the result is \<open>None\<close> when a
  component is not a real number.
\<close>

definition normalize_wp :: "NormalizationParams \<Rightarrow> Waypoint \<Rightarrow> array3 option" where
  "normalize_wp norm_params wp =
     (case (fdiv (wp_x wp - a0 (mean norm_params)) (a0 (std norm_params)),
            fdiv (wp_y wp - a1 (mean norm_params)) (a1 (std norm_params)),
            fdiv (wp_z wp - a2 (mean norm_params)) (a2 (std norm_params))) of
        (Some n0, Some n1, Some n2) \<Rightarrow> Some (Array3 n0 n1 n2)
      | _ \<Rightarrow> None)"

definition denormalize :: "NormalizationParams \<Rightarrow> array3 \<Rightarrow> Waypoint" where
  "denormalize norm_params normalized =
     \<lparr>wp_x = a0 normalized * a0 (std norm_params) + a0 (mean norm_params),
      wp_y = a1 normalized * a1 (std norm_params) + a1 (mean norm_params),
      wp_z = a2 normalized * a2 (std norm_params) + a2 (mean norm_params)\<rparr>"

text \<open>
  The Normalizer in binary32: \<^verbatim>\<open>(wp.x - mean[0]) / std[0]\<close> is a rounded subtraction
  followed by a rounded division, \<^verbatim>\<open>normalized[0] * std[0] + mean[0]\<close> a rounded
  multiplication followed by a rounded addition.
\<close>

datatype array3_f32 = Array3_f32 (b0: f32) (b1: f32) (b2: f32)

record NormalizationParams_f32 =
  mean_f32 :: array3_f32
  std_f32 :: array3_f32

definition normalize_f32 :: "NormalizationParams_f32 \<Rightarrow> Waypoint_f32 \<Rightarrow> array3_f32" where
  "normalize_f32 np wp =
     Array3_f32 (f32_div (f32_sub (x32 wp) (b0 (mean_f32 np))) (b0 (std_f32 np)))
                (f32_div (f32_sub (y32 wp) (b1 (mean_f32 np))) (b1 (std_f32 np)))
                (f32_div (f32_sub (z32 wp) (b2 (mean_f32 np))) (b2 (std_f32 np)))"

definition denormalize_f32 :: "NormalizationParams_f32 \<Rightarrow> array3_f32 \<Rightarrow> Waypoint_f32" where
  "denormalize_f32 np normalized =
     \<lparr>x32 = f32_add (f32_mul (b0 normalized) (b0 (std_f32 np))) (b0 (mean_f32 np)),
      y32 = f32_add (f32_mul (b1 normalized) (b1 (std_f32 np))) (b1 (mean_f32 np)),
      z32 = f32_add (f32_mul (b2 normalized) (b2 (std_f32 np))) (b2 (mean_f32 np))\<rparr>"

section \<open>Loading the normalization parameters\<close>

text \<open>What the source throws, and the undefined behaviour it can run into.\<close>

datatype error =
    OpenFailed \<comment> \<open>\<^verbatim>\<open>std::runtime_error("Failed to open normalization file: ...")\<close>\<close>
  | InvalidArgument \<comment> \<open>\<^verbatim>\<open>std::invalid_argument\<close> of \<^verbatim>\<open>std::stof\<close>: no conversion\<close>
  | OutOfRange \<comment> \<open>\<^verbatim>\<open>std::out_of_range\<close> of \<^verbatim>\<open>std::stof\<close>: the value does not fit a \<^verbatim>\<open>float\<close>\<close>
  | ModelLoadFailed \<comment> \<open>\<^verbatim>\<open>std::runtime_error("Failed to load ONNX model: ...")\<close>\<close>
  | NotInitialized \<comment> \<open>\<^verbatim>\<open>std::runtime_error("Generator not initialized")\<close>\<close>
  | OrtException \<comment> \<open>thrown by \<^verbatim>\<open>Ort::Session::Run\<close>\<close>
  | LengthError \<comment> \<open>a \<^verbatim>\<open>std::vector\<close> asked for a negative size\<close>
  | UndefinedBehaviour \<comment> \<open>a null session, a missing dimension, a read past the tensor\<close>

text \<open>
  The character classes of the two regular expressions: \<^verbatim>\<open>\d\<close>, \<^verbatim>\<open>\s\<close> and the
  bracket expression \<^verbatim>\<open>[\d\.\-\s,]\<close>.
\<close>

definition is_digit :: "char \<Rightarrow> bool" where
  "is_digit c = (c \<in> set ''0123456789'')"

definition is_space :: "char \<Rightarrow> bool" where
  "is_space c = (c = CHR '' '' \<or> c = CHR 0x09 \<or> c = CHR 0x0A \<or> c = CHR 0x0B
                 \<or> c = CHR 0x0C \<or> c = CHR 0x0D)"

definition is_value_char :: "char \<Rightarrow> bool" where
  "is_value_char c = (is_digit c \<or> c = CHR ''.'' \<or> c = CHR ''-'' \<or> is_space c \<or> c = CHR '','')"

text \<open>\<open>strip_prefix p s\<close>: the rest of \<open>s\<close> after the literal \<open>p\<close>, if \<open>s\<close> starts with it.\<close>

fun strip_prefix :: "string \<Rightarrow> string \<Rightarrow> string option" where
  "strip_prefix [] s = Some s"
| "strip_prefix (p # ps) [] = None"
| "strip_prefix (p # ps) (c # cs) = (if p = c then strip_prefix ps cs else None)"

text \<open>
  A match of \<^verbatim>\<open>"key"\s*:\s*\[([\d\.\-\s,]+)\]\<close> that starts at the head of \<open>s\<close>: the text
  of its capture group. Each greedy repetition is followed by a character outside its
  class, so the longest run is the only one that can match.
\<close>

definition match_field_here :: "string \<Rightarrow> string \<Rightarrow> string option" where
  "match_field_here key s =
     (case strip_prefix ([CHR 0x22] @ key @ [CHR 0x22]) s of
        None \<Rightarrow> None
      | Some r1 \<Rightarrow>
          (case strip_prefix '':'' (dropWhile is_space r1) of
             None \<Rightarrow> None
           | Some r2 \<Rightarrow>
               (case strip_prefix ''['' (dropWhile is_space r2) of
                  None \<Rightarrow> None
                | Some r3 \<Rightarrow>
                    let values = takeWhile is_value_char r3
                    in if values = [] then None
                       else (case strip_prefix '']'' (dropWhile is_value_char r3) of
                               None \<Rightarrow> None
                             | Some _ \<Rightarrow> Some values))))"

text \<open>\<^verbatim>\<open>std::regex_search\<close>: the match at the leftmost position that has one.\<close>

fun regex_search_field :: "string \<Rightarrow> string \<Rightarrow> string option" where
  "regex_search_field key [] = match_field_here key []"
| "regex_search_field key (c # cs) =
     (case match_field_here key (c # cs) of
        Some values \<Rightarrow> Some values
      | None \<Rightarrow> regex_search_field key cs)"

text \<open>
  \<^verbatim>\<open>std::getline(iss, token, ',')\<close> on the rest of the stream: it fails at the end of the
  stream, and otherwise reads up to the next comma, which it discards.
\<close>

definition getline :: "string \<Rightarrow> (string \<times> string) option" where
  "getline stream =
     (if stream = [] then None
      else Some (takeWhile (\<lambda>c. c \<noteq> CHR '','') stream,
                 drop 1 (dropWhile (\<lambda>c. c \<noteq> CHR '','') stream)))"

definition digits_value :: "string \<Rightarrow> nat" where
  "digits_value ds = fold (\<lambda>c acc. acc * 10 + (of_char c - of_char (CHR ''0''))) ds 0"

text \<open>
  \<^verbatim>\<open>std::stof\<close> on a token of value characters: leading white space, an optional minus
  sign, digits with an optional fraction; what follows the number is ignored. With no
  digit at all it throws \<^verbatim>\<open>std::invalid_argument\<close>. The decimal number is converted
  to the nearest \<^verbatim>\<open>float\<close>; \<^verbatim>\<open>std::stof\<close> throws \<^verbatim>\<open>std::out_of_range\<close> when
  \<^verbatim>\<open>strtof\<close> reports \<^verbatim>\<open>ERANGE\<close>: on overflow, and (as the GNU C library does) when
  the result is subnormal or zero and not exact.
\<close>

definition stof :: "string \<Rightarrow> error + real" where
  "stof token =
     (let s = dropWhile is_space token;
          negative = (s \<noteq> [] \<and> hd s = CHR ''-'');
          s = (if negative then tl s else s);
          int_digits = takeWhile is_digit s;
          s = dropWhile is_digit s;
          frac_digits = (if s \<noteq> [] \<and> hd s = CHR ''.'' then takeWhile is_digit (tl s) else [])
      in if int_digits = [] \<and> frac_digits = [] then Inl InvalidArgument
         else let v = real (digits_value int_digits)
                      + real (digits_value frac_digits) / 10 ^ length frac_digits;
                  v = (if negative then - v else v)
              in case round32 v of
                   F32 r \<Rightarrow> if \<bar>r\<bar> < 2 powi (- 126) \<and> r \<noteq> v then Inl OutOfRange else Inr r
                 | _ \<Rightarrow> Inl OutOfRange)"

text \<open>
  The loop \<^verbatim>\<open>while (std::getline(iss, token, ',') && idx < 3) arr[idx++] = std::stof(token);\<close>
\<close>

function parse_values :: "string \<Rightarrow> nat \<Rightarrow> array3 \<Rightarrow> error + array3" where
  "parse_values stream idx arr =
     (case getline stream of
        None \<Rightarrow> Inr arr
      | Some (token, rest) \<Rightarrow>
          if idx < 3
          then (case stof token of
                  Inl e \<Rightarrow> Inl e
                | Inr v \<Rightarrow> parse_values rest (idx + 1) (set3 arr idx v))
          else Inr arr)"
  by pat_completeness auto
termination
proof (relation "measure (\<lambda>(stream, idx, arr). length stream)")
  show "wf (measure (\<lambda>(stream, idx, arr). length stream))" by simp
next
  fix stream :: string and idx :: nat and arr :: array3 and x2 token rest x2a
  assume "getline stream = Some x2" and "(token, rest) = x2"
  then have ne: "stream \<noteq> []"
    and rest: "rest = drop 1 (dropWhile (\<lambda>c. c \<noteq> CHR '','') stream)"
    by (auto simp: getline_def split: if_splits)
  have "length (dropWhile (\<lambda>c. c \<noteq> CHR '','') stream) \<le> length stream"
    by (rule length_dropWhile_le)
  moreover have "length rest = length (dropWhile (\<lambda>c. c \<noteq> CHR '','') stream) - 1"
    unfolding rest by simp
  moreover from ne have "0 < length stream" by simp
  ultimately have "length rest < length stream" by arith
  then show "((rest, idx + 1, set3 arr idx x2a), stream, idx, arr)
             \<in> measure (\<lambda>(stream, idx, arr). length stream)"
    by simp
qed

declare parse_values.simps [simp del]

text \<open>
  The file system as seen by \<^verbatim>\<open>std::ifstream\<close>: a path maps to the content of a file
  that can be opened, or to nothing.
\<close>

type_synonym file_system = "string \<Rightarrow> string option"

definition parse_field ::
  "string \<Rightarrow> string \<Rightarrow> array3 \<Rightarrow> error + array3" where
  "parse_field key content arr =
     (case regex_search_field key content of
        None \<Rightarrow> Inr arr
      | Some values \<Rightarrow> parse_values values 0 arr)"

definition parseNormalizationJSON :: "file_system \<Rightarrow> string \<Rightarrow> error + NormalizationParams" where
  "parseNormalizationJSON fs filepath =
     (let params = NormalizationParams_default
      in case fs filepath of
           None \<Rightarrow> Inl OpenFailed
         | Some content \<Rightarrow>
             (case parse_field ''mean'' content (mean params) of
                Inl e \<Rightarrow> Inl e
              | Inr m \<Rightarrow>
                  (case parse_field ''std'' content (std params) of
                     Inl e \<Rightarrow> Inl e
                   | Inr sd \<Rightarrow> Inr (params\<lparr>mean := m, std := sd\<rparr>))))"

section \<open>Generator (trajectory\_inference.cpp)\<close>

text \<open>
  The C++ \<^verbatim>\<open>int\<close> fields are 32-bit words read as signed (\<open>sint\<close>); \<^verbatim>\<open>rng_state_\<close> is an
  \<^verbatim>\<open>unsigned int\<close>, a 32-bit word whose increment wraps. The members \<^verbatim>\<open>config_\<close>,
  \<^verbatim>\<open>norm_params_\<close>, \<^verbatim>\<open>session_\<close> and \<^verbatim>\<open>rng_state_\<close> of the class are the fields
  \<open>gen_config\<close>, \<open>norm_params\<close>, \<open>session\<close> and \<open>rng_state\<close> of the record; the members
  that only serve the ONNX runtime (environment, session options, memory info, tensor
  names) are left out.
\<close>

record GeneratorConfig =
  model_path :: string
  latent_dim :: "32 word"
  seq_len :: "32 word"
  num_threads :: "32 word"
  use_gpu :: bool

text \<open>An output tensor of the model: its shape (\<^verbatim>\<open>int64_t\<close> dimensions) and its data.\<close>

record OrtValue =
  tensor_shape :: "int list"
  tensor_data :: "real list"

text \<open>
  The loaded ONNX session is an external collaborator: a function from the three input
  tensors (latent, start, end) to the output tensor, or an exception. A normalized
  waypoint that is not made of real numbers reaches it as \<open>None\<close>.
\<close>

type_synonym Session = "real list \<Rightarrow> array3 option \<Rightarrow> array3 option \<Rightarrow> error + OrtValue"

record TrajectoryGenerator =
  gen_config :: GeneratorConfig
  norm_params :: NormalizationParams
  session :: "Session option"
  rng_state :: "32 word"

text \<open>
  The constructor. \<open>load\<close> stands for \<^verbatim>\<open>Ort::Session\<close>'s constructor on the model path
  (\<open>None\<close>: it throws), \<open>now\<close> for the value of \<^verbatim>\<open>std::time(nullptr)\<close>, cast to
  \<^verbatim>\<open>unsigned int\<close>.
\<close>

definition TrajectoryGenerator_new ::
  "(string \<Rightarrow> Session option) \<Rightarrow> int \<Rightarrow> GeneratorConfig \<Rightarrow> error + TrajectoryGenerator" where
  "TrajectoryGenerator_new load now cfg =
     (case load (model_path cfg) of
        None \<Rightarrow> Inl ModelLoadFailed
      | Some sess \<Rightarrow>
          Inr \<lparr>gen_config = cfg, norm_params = NormalizationParams_default,
               session = Some sess, rng_state = word_of_int now\<rparr>)"

definition isReady :: "TrajectoryGenerator \<Rightarrow> bool" where
  "isReady g = (session g \<noteq> None)"

text \<open>
  \<^verbatim>\<open>loadNormalization\<close> catches every \<^verbatim>\<open>std::exception\<close> of the parser and returns
  \<^verbatim>\<open>false\<close>; the assignment to \<^verbatim>\<open>norm_params_\<close> happens only when the parser returns.
\<close>

definition loadNormalization ::
  "file_system \<Rightarrow> string \<Rightarrow> TrajectoryGenerator \<Rightarrow> bool \<times> TrajectoryGenerator" where
  "loadNormalization fs norm_path g =
     (case parseNormalizationJSON fs norm_path of
        Inr params \<Rightarrow> (True, g\<lparr>norm_params := params\<rparr>)
      | Inl e \<Rightarrow> (False, g))"

text \<open>
  \<^verbatim>\<open>sampleLatent\<close>. \<open>draw seed i\<close> stands for the \<open>i\<close>-th value that
  \<^verbatim>\<open>std::normal_distribution<float>(0, 1)\<close> draws from a \<^verbatim>\<open>std::mt19937\<close> seeded with
  \<open>seed\<close>. The vector is allocated before the state is read and incremented.
\<close>

definition sampleLatent ::
  "(32 word \<Rightarrow> nat \<Rightarrow> real) \<Rightarrow> TrajectoryGenerator \<Rightarrow> (error + real list) \<times> TrajectoryGenerator" where
  "sampleLatent draw g =
     (if sint (latent_dim (gen_config g)) < 0 then (Inl LengthError, g)
      else let seed = rng_state g;
               g' = g\<lparr>rng_state := rng_state g + 1\<rparr>;
               latent = map (draw seed) [0 ..< nat (sint (latent_dim (gen_config g)))]
           in (Inr latent, g'))"

text \<open>One iteration of the conversion loop of \<^verbatim>\<open>runInference\<close>.\<close>

definition output_step :: "NormalizationParams \<Rightarrow> real list \<Rightarrow> nat \<Rightarrow> Trajectory \<Rightarrow> Trajectory" where
  "output_step np output_data i trajectory =
     (let normalized = Array3 (output_data ! (i * 3 + 0)) (output_data ! (i * 3 + 1))
                              (output_data ! (i * 3 + 2))
      in trajectory @ [denormalize np normalized])"

definition runInference ::
  "TrajectoryGenerator \<Rightarrow> real list \<Rightarrow> Waypoint \<Rightarrow> Waypoint \<Rightarrow> error + Trajectory" where
  "runInference g latent start end_wp =
     (let start_norm = normalize_wp (norm_params g) start;
          end_norm = normalize_wp (norm_params g) end_wp
      in case session g of
           None \<Rightarrow> Inl UndefinedBehaviour
         | Some run \<Rightarrow>
             (case run latent start_norm end_norm of
                Inl e \<Rightarrow> Inl e
              | Inr output \<Rightarrow>
                  if length (tensor_shape output) < 2 then Inl UndefinedBehaviour
                  else
                    let n = sint (word_of_int (tensor_shape output ! 1) :: 32 word)
                    in if n < 0 then Inl LengthError
                       else if length (tensor_data output) < 3 * nat n
                       then Inl UndefinedBehaviour
                       else Inr (fold (output_step (norm_params g) (tensor_data output))
                                   [0 ..< nat n] [])))"

definition generate ::
  "(32 word \<Rightarrow> nat \<Rightarrow> real) \<Rightarrow> TrajectoryGenerator \<Rightarrow> Waypoint \<Rightarrow> Waypoint
     \<Rightarrow> (error + Trajectory) \<times> TrajectoryGenerator" where
  "generate draw g start end_wp =
     (if \<not> isReady g then (Inl NotInitialized, g)
      else case sampleLatent draw g of
             (Inl e, g') \<Rightarrow> (Inl e, g')
           | (Inr latent, g') \<Rightarrow> (runInference g' latent start end_wp, g'))"

text \<open>
  The inference contract of the external model for a configuration: the output tensor
  has the shape \<open>[1, seq_len, 3]\<close> and holds \<open>seq_len * 3\<close> values.
\<close>

definition inference_contract :: "GeneratorConfig \<Rightarrow> OrtValue \<Rightarrow> bool" where
  "inference_contract cfg output =
     (tensor_shape output = [1, sint (seq_len cfg), 3]
      \<and> int (length (tensor_data output)) = sint (seq_len cfg) * 3)"

text \<open>The generator after \<open>k\<close> calls of \<^verbatim>\<open>sampleLatent\<close>.\<close>

definition after_calls ::
  "(32 word \<Rightarrow> nat \<Rightarrow> real) \<Rightarrow> nat \<Rightarrow> TrajectoryGenerator \<Rightarrow> TrajectoryGenerator" where
  "after_calls draw k g = ((\<lambda>h. snd (sampleLatent draw h)) ^^ k) g"

section \<open>Concrete inputs for the instances below\<close>

text \<open>
  A deterministic stub in place of the model, which returns a known output sequence of
  two waypoints, with a configuration that fits it.
\<close>

definition stub_session :: Session where
  "stub_session latent start_norm end_norm =
     Inr \<lparr>tensor_shape = [1, 2, 3], tensor_data = [0, 0, 0, 1, 1, 1]\<rparr>"

definition stub_load :: "string \<Rightarrow> Session option" where
  "stub_load path = Some stub_session"

definition example_config :: GeneratorConfig where
  "example_config =
     \<lparr>model_path = ''model.onnx'', latent_dim = 1, seq_len = 2, num_threads = 4, use_gpu = False\<rparr>"

definition example_generator :: TrajectoryGenerator where
  "example_generator =
     \<lparr>gen_config = example_config, norm_params = NormalizationParams_default,
      session = Some stub_session, rng_state = 0\<rparr>"

text \<open>
  A file system with two normalization files: \<^verbatim>\<open>{"std": [2, 2, 2]}\<close>, which has no
  \<^verbatim>\<open>mean\<close> field, and \<^verbatim>\<open>{"mean": [1.5, -2, 3]}\<close>, which has no \<^verbatim>\<open>std\<close> field.
\<close>

definition std_only_content :: string where
  "std_only_content = ''{'' @ [CHR 0x22] @ ''std'' @ [CHR 0x22] @ '': [2, 2, 2]}''"

definition mean_only_content :: string where
  "mean_only_content = ''{'' @ [CHR 0x22] @ ''mean'' @ [CHR 0x22] @ '': [1.5, -2, 3]}''"

definition example_fs :: file_system where
  "example_fs path =
     (if path = ''norm.json'' then Some std_only_content
      else if path = ''mean.json'' then Some mean_only_content
      else None)"

text \<open>
  Inputs in binary32. \<open>acosf_rounded\<close> is one possible \<^verbatim>\<open>acosf\<close>, the correctly rounded
  one. The default weights of \<^verbatim>\<open>rankTrajectories\<close> are the \<^verbatim>\<open>float\<close> literals
  \<^verbatim>\<open>0.3f\<close>, \<^verbatim>\<open>0.5f\<close> and \<^verbatim>\<open>0.2f\<close>.
\<close>

definition acosf_rounded :: "f32 \<Rightarrow> f32" where
  "acosf_rounded a =
     (case a of
        F32 x \<Rightarrow> if - 1 \<le> x \<and> x \<le> 1 then round32 (arccos x) else F32_NaN
      | _ \<Rightarrow> F32_NaN)"

definition point_f32 :: "real \<Rightarrow> real \<Rightarrow> real \<Rightarrow> Waypoint_f32" where
  "point_f32 x y z = \<lparr>x32 = F32 x, y32 = F32 y, z32 = F32 z\<rparr>"

definition origin_f32 :: Waypoint_f32 where
  "origin_f32 = \<lparr>x32 = F32 0, y32 = F32 0, z32 = F32 0\<rparr>"

definition w1_default :: f32 where
  "w1_default = F32 (5033165 / 16777216)"

definition w2_default :: f32 where
  "w2_default = F32 (1 / 2)"

definition w3_default :: f32 where
  "w3_default = F32 (13421773 / 67108864)"

text \<open>Seventeen empty candidates: all of them get the score 0.\<close>

definition seventeen_empty :: "Trajectory_f32 list" where
  "seventeen_empty = replicate 17 []"

text \<open>An empty candidate and a candidate that consists of the expected end point.\<close>

definition two_candidates :: "Trajectory_f32 list" where
  "two_candidates = [[], [point_f32 0 0 0]]"

text \<open>
  Four candidates of one waypoint each, at the distances 0, 200 and 100 from the
  expected end point \<open>origin_f32\<close>, the third one with a NaN coordinate.
\<close>

definition nan_candidates :: "Trajectory_f32 list" where
  "nan_candidates =
     [[point_f32 0 0 0], [point_f32 200 0 0],
      [\<lparr>x32 = F32_NaN, y32 = F32 0, z32 = F32 0\<rparr>], [point_f32 100 0 0]]"


text \<open>
  Normalization parameters and a waypoint for the round trip: mean 400 and standard
  deviation 200 on the first axis, the coordinate \<open>-7.25\<close>.
\<close>

definition roundtrip_params :: NormalizationParams_f32 where
  "roundtrip_params =
     \<lparr>mean_f32 = Array3_f32 (F32 400) (F32 0) (F32 0),
      std_f32 = Array3_f32 (F32 200) (F32 1) (F32 1)\<rparr>"

definition roundtrip_waypoint :: Waypoint_f32 where
  "roundtrip_waypoint = \<lparr>x32 = F32 (- 29 / 4), y32 = F32 0, z32 = F32 0\<rparr>"

text \<open>
  A normalization file whose first \<^verbatim>\<open>std\<close> value, \<open>10\<^sup>4\<^sup>1\<close>, is beyond the range of
  \<^verbatim>\<open>float\<close>.
\<close>

definition overflow_content :: string where
  "overflow_content =
     ''{'' @ [CHR 0x22] @ ''std'' @ [CHR 0x22]
     @ '': [100000000000000000000000000000000000000000, 2, 2]}''"

definition overflow_fs :: file_system where
  "overflow_fs path = (if path = ''overflow.json'' then Some overflow_content else None)"

section \<open>Facts about the loops and the arithmetic\<close>

lemma fold_add_sum: "fold (\<lambda>i acc. acc + f i) [0 ..< n] (s::real) = s + (\<Sum>i<n. f i)"
  by (induction n) simp_all

lemma fold_snoc_map: "fold (\<lambda>x acc. acc @ [f x]) xs ys = ys @ map f xs"
  by (induction xs arbitrary: ys) simp_all

lemma fdiv_Some: "b \<noteq> 0 \<Longrightarrow> fdiv a b = Some (a / b)"
  by (simp add: fdiv_def)

lemma epsilon_pos: "0 < epsilon"
  by (simp add: epsilon_def)

section \<open>Facts about binary32 rounding\<close>

text \<open>The exponent search finds the binade of its argument.\<close>

lemma exp_search_eq:
  "e \<le> t \<Longrightarrow> t \<le> e + int k \<Longrightarrow> t = e \<or> 2 powi t \<le> a \<Longrightarrow> a < 2 powi (t + 1)
   \<Longrightarrow> exp_search k e a = t"
proof (induction k arbitrary: e)
  case 0
  then show ?case by simp
next
  case (Suc k)
  show ?case
  proof (cases "a < 2 powi (e + 1)")
    case True
    have "t = e"
    proof (rule ccontr)
      assume "t \<noteq> e"
      with Suc.prems have "e + 1 \<le> t" and "2 powi t \<le> a" by auto
      then have "(2::real) powi (e + 1) \<le> 2 powi t" by (intro power_int_increasing) auto
      with \<open>2 powi t \<le> a\<close> True show False by linarith
    qed
    with True show ?thesis by simp
  next
    case False
    then have ge: "2 powi (e + 1) \<le> a" by simp
    have "e + 1 \<le> t"
    proof (rule ccontr)
      assume "\<not> e + 1 \<le> t"
      then have "t + 1 \<le> e + 1" by simp
      then have "(2::real) powi (t + 1) \<le> 2 powi (e + 1)" by (intro power_int_increasing) auto
      with ge Suc.prems(4) show False by linarith
    qed
    moreover from this Suc.prems have "t = e + 1 \<or> 2 powi t \<le> a" by auto
    ultimately have "exp_search k (e + 1) a = t"
      using Suc.prems by (intro Suc.IH) auto
    with False show ?thesis by simp
  qed
qed

lemma f32_exponent_eq:
  "- 126 \<le> t \<Longrightarrow> t \<le> 127 \<Longrightarrow> t = - 126 \<or> 2 powi t \<le> a \<Longrightarrow> a < 2 powi (t + 1)
   \<Longrightarrow> f32_exponent a = t"
  unfolding f32_exponent_def by (rule exp_search_eq) auto

lemma exp_search_lower: "exp_search k e a = e \<or> 2 powi (exp_search k e a) \<le> a"
proof (induction k arbitrary: e)
  case 0
  show ?case by simp
next
  case (Suc k)
  show ?case
  proof (cases "a < 2 powi (e + 1)")
    case True
    then show ?thesis by simp
  next
    case False
    with Suc.IH [of "e + 1"] show ?thesis by auto
  qed
qed

lemma round_half_even_error: "\<bar>of_int (round_half_even y) - y\<bar> \<le> 1 / 2"
  unfolding round_half_even_def Let_def by (auto simp: abs_le_iff)

lemma round32_error:
  assumes "round32 x = F32 r"
  shows "\<bar>r - x\<bar> \<le> \<bar>x\<bar> / 2 ^ 24 + 1 / 2 ^ 150"
proof -
  define e where "e = f32_exponent \<bar>x\<bar>"
  define ulp :: real where "ulp = 2 powi (e - 23)"
  have ulp_pos: "0 < ulp" by (simp add: ulp_def)
  from assms have r: "r = of_int (round_half_even (x / ulp)) * ulp"
    by (auto simp: round32_def Let_def e_def ulp_def split: if_splits)
  have "r - x = (of_int (round_half_even (x / ulp)) - x / ulp) * ulp"
    using ulp_pos by (simp add: r left_diff_distrib)
  then have "\<bar>r - x\<bar> = \<bar>of_int (round_half_even (x / ulp)) - x / ulp\<bar> * ulp"
    using ulp_pos by (simp add: abs_mult)
  also have "\<dots> \<le> (1 / 2) * ulp"
    using round_half_even_error [of "x / ulp"] ulp_pos by (intro mult_right_mono) auto
  also have "\<dots> = 2 powi e / 2 ^ 24"
    by (simp add: ulp_def power_int_diff)
  finally have b: "\<bar>r - x\<bar> \<le> 2 powi e / 2 ^ 24" .
  from exp_search_lower [of 253 "- 126" "\<bar>x\<bar>"]
  have "e = - 126 \<or> 2 powi e \<le> \<bar>x\<bar>" by (simp add: e_def f32_exponent_def)
  then show ?thesis
  proof
    assume "e = - 126"
    then have "(2::real) powi e / 2 ^ 24 = 1 / 2 ^ 150"
      by (simp add: power_int_minus field_simps)
    moreover have "0 \<le> \<bar>x\<bar> / 2 ^ 24" by simp
    ultimately show ?thesis using b by linarith
  next
    assume "2 powi e \<le> \<bar>x\<bar>"
    then have "2 powi e / 2 ^ 24 \<le> \<bar>x\<bar> / 2 ^ 24" by (simp add: divide_right_mono)
    moreover have "(0::real) \<le> 1 / 2 ^ 150" by simp
    ultimately show ?thesis using b by linarith
  qed
qed

lemma exp_search_ge: "e \<le> exp_search k e a"
proof (induction k arbitrary: e)
  case 0 show ?case by simp
next
  case (Suc k)
  have "e + 1 \<le> exp_search k (e + 1) a" by (rule Suc.IH)
  then show ?case by simp
qed

lemma f32_exponent_ge: "- 126 \<le> f32_exponent a"
  unfolding f32_exponent_def by (rule exp_search_ge)

lemma f32_exponent_lower: "f32_exponent a = - 126 \<or> 2 powi (f32_exponent a) \<le> a"
  unfolding f32_exponent_def by (rule exp_search_lower)

lemma exp_search_top: "2 powi (e + int k) \<le> a \<Longrightarrow> exp_search k e a = e + int k"
proof (induction k arbitrary: e)
  case 0 show ?case by simp
next
  case (Suc k)
  have "(2::real) powi (e + 1) \<le> 2 powi (e + int (Suc k))"
    by (rule power_int_increasing) simp_all
  with Suc.prems have "\<not> a < 2 powi (e + 1)" by linarith
  moreover have "exp_search k (e + 1) a = e + 1 + int k"
    using Suc.prems by (intro Suc.IH) (simp add: ac_simps)
  ultimately show ?case by simp
qed

lemma f32_exponent_top: "2 powi 127 \<le> a \<Longrightarrow> f32_exponent a = 127"
  unfolding f32_exponent_def using exp_search_top [of "- 126" 253 a] by simp

lemma round_half_even_int: "round_half_even (of_int k) = k"
  by (simp add: round_half_even_def Let_def)

lemma round32_zero: "round32 0 = F32 0"
proof -
  have "f32_exponent 0 = - 126" by (rule f32_exponent_eq) simp_all
  then show ?thesis by (simp add: round32_def Let_def round_half_even_def)
qed

lemma round32_representable:
  assumes x: "x = of_int k * 2 powi j" and j: "- 149 \<le> j" and k: "\<bar>k\<bar> < 2 ^ 24"
    and fin: "\<bar>x\<bar> < 2 powi 128"
  shows "round32 x = F32 x"
proof -
  define e where "e = f32_exponent \<bar>x\<bar>"
  have e_ge: "- 126 \<le> e" unfolding e_def by (rule f32_exponent_ge)
  have "e - 23 \<le> j"
  proof (cases "e = - 126")
    case True with j show ?thesis by simp
  next
    case False
    with f32_exponent_lower [of "\<bar>x\<bar>"] have "2 powi e \<le> \<bar>x\<bar>" by (simp add: e_def)
    also have "\<bar>x\<bar> = of_int \<bar>k\<bar> * 2 powi j" by (simp add: x abs_mult)
    also have "\<dots> < 2 ^ 24 * 2 powi j"
    proof (rule mult_strict_right_mono)
      from k have "real_of_int \<bar>k\<bar> < real_of_int (2 ^ 24)" by (simp only: of_int_less_iff)
      then show "real_of_int \<bar>k\<bar> < 2 ^ 24" by simp
    qed simp
    also have "\<dots> = 2 powi (24 + j)" by (simp add: power_int_add)
    finally have "(2::real) powi e < 2 powi (24 + j)" .
    have "e < 24 + j"
    proof (rule ccontr)
      assume "\<not> e < 24 + j"
      then have "(2::real) powi (24 + j) \<le> 2 powi e" by (intro power_int_increasing) simp_all
      with \<open>(2::real) powi e < 2 powi (24 + j)\<close> show False by simp
    qed
    then show ?thesis by simp
  qed
  then obtain d :: nat where d: "j = e - 23 + int d"
    by (metis add.commute diff_add_cancel zero_le_imp_eq_int diff_ge_0_iff_ge)
  have "x / 2 powi (e - 23) = of_int k * 2 powi (int d)"
    by (simp add: x d power_int_add)
  also have "\<dots> = of_int (k * 2 ^ d)" by simp
  finally have q: "x / 2 powi (e - 23) = of_int (k * 2 ^ d)" .
  have r: "of_int (round_half_even (x / 2 powi (e - 23))) * 2 powi (e - 23) = x"
    unfolding q round_half_even_int unfolding q [symmetric] by simp
  from fin have "\<not> 2 powi 128 \<le> x" "\<not> x \<le> - (2 powi 128)" by linarith+
  then show ?thesis
    unfolding round32_def Let_def e_def [symmetric] r by simp
qed

lemma round32_of_int: "\<bar>k\<bar> < 2 ^ 24 \<Longrightarrow> round32 (of_int k) = F32 (of_int k)"
proof -
  assume k: "\<bar>k\<bar> < 2 ^ 24"
  then have "real_of_int \<bar>k\<bar> < real_of_int (2 ^ 24)" by (simp only: of_int_less_iff)
  then have "\<bar>real_of_int k\<bar> < 2 ^ 24" by simp
  also have "(2::real) ^ 24 < 2 powi 128" by simp
  finally show ?thesis
    using k by (intro round32_representable [where k = k and j = 0]) simp_all
qed

text \<open>A magnitude of \<open>2\<^sup>1\<^sup>2\<^sup>8\<close> or more rounds to an infinity.\<close>

lemma round32_overflow:
  assumes "2 powi 128 \<le> x"
  shows "round32 x = F32_PosInf"
proof -
  have "(0::real) \<le> 2 powi 128" by simp
  with assms have x: "0 \<le> x" by linarith
  have "(2::real) powi 127 \<le> 2 powi 128" by simp
  with assms have e: "f32_exponent \<bar>x\<bar> = 127" using x by (intro f32_exponent_top) linarith
  have "(2::real) ^ 24 \<le> x / 2 powi 104"
    using assms by (simp add: field_simps)
  then have "2 ^ 24 \<le> \<lfloor>x / 2 powi 104\<rfloor>" by (simp add: le_floor_iff)
  moreover have "\<lfloor>y\<rfloor> \<le> round_half_even y" for y
    by (simp add: round_half_even_def Let_def)
  ultimately have "2 ^ 24 \<le> round_half_even (x / 2 powi 104)" by (rule order_trans)
  then have "real_of_int (2 ^ 24) \<le> of_int (round_half_even (x / 2 powi 104))"
    by (simp only: of_int_le_iff)
  then have "(2::real) ^ 24 \<le> of_int (round_half_even (x / 2 powi 104))" by simp
  then have "(2::real) ^ 24 * 2 powi 104 \<le> of_int (round_half_even (x / 2 powi 104)) * 2 powi 104"
    by (intro mult_right_mono) simp_all
  then show ?thesis
    by (simp add: round32_def Let_def e)
qed

text \<open>The operations on finite operands, and what a finite result says about the operands.\<close>

lemma f32_sub_F32: "f32_sub (F32 x) (F32 y) = round32 (x - y)"
  by (simp add: f32_sub_def f32_add_def f32_neg_def)

lemma f32_add_F32: "f32_add (F32 x) (F32 y) = round32 (x + y)"
  by (simp add: f32_add_def)

lemma f32_mul_F32: "f32_mul (F32 x) (F32 y) = round32 (x * y)"
  by (simp add: f32_mul_def)

lemma f32_div_F32: "y \<noteq> 0 \<Longrightarrow> f32_div (F32 x) (F32 y) = round32 (x / y)"
  by (simp add: f32_div_def)

lemma round32_one: "round32 1 = F32 1"
  using round32_of_int [of 1] by simp

lemma f32_add_finite:
  "f32_add a b = F32 r \<Longrightarrow> \<exists>x y. a = F32 x \<and> b = F32 y \<and> round32 (x + y) = F32 r"
  by (cases a; cases b) (simp_all add: f32_add_def)

lemma f32_sub_finite:
  "f32_sub a b = F32 r \<Longrightarrow> \<exists>x y. a = F32 x \<and> b = F32 y \<and> round32 (x - y) = F32 r"
  by (cases a; cases b) (simp_all add: f32_sub_def f32_add_def f32_neg_def)

lemma f32_mul_finite:
  "f32_mul a b = F32 r \<Longrightarrow> \<exists>x y. a = F32 x \<and> b = F32 y \<and> round32 (x * y) = F32 r"
  by (cases a; cases b) (simp_all add: f32_mul_def f32_signed_inf_def split: if_splits)

lemma f32_div_finite:
  "f32_div a (F32 y) = F32 r \<Longrightarrow> y \<noteq> 0 \<Longrightarrow> \<exists>x. a = F32 x \<and> round32 (x / y) = F32 r"
  by (cases a) (simp_all add: f32_div_def f32_signed_inf_def split: if_splits)

section \<open>Empty input to evaluateTrajectory\<close>

text \<open>
  Claim C9. For the empty trajectory and any expected end waypoint,
  \<open>evaluateTrajectory\<close> returns the default-constructed metrics, in which all eleven
  fields are 0; its \<open>smoothness_score\<close> field is 0 although \<open>computeSmoothnessScore\<close>
  of the empty trajectory is 1.
\<close>

theorem evaluateTrajectory_empty:
  "evaluateTrajectory [] expected_end = TrajectoryMetrics_default
   \<and> path_length (evaluateTrajectory [] expected_end) = 0
   \<and> straight_line_distance (evaluateTrajectory [] expected_end) = 0
   \<and> path_efficiency (evaluateTrajectory [] expected_end) = 0
   \<and> avg_curvature (evaluateTrajectory [] expected_end) = 0
   \<and> max_curvature (evaluateTrajectory [] expected_end) = 0
   \<and> smoothness_score (evaluateTrajectory [] expected_end) = 0
   \<and> endpoint_error (evaluateTrajectory [] expected_end) = 0
   \<and> min_altitude (evaluateTrajectory [] expected_end) = 0
   \<and> max_altitude (evaluateTrajectory [] expected_end) = 0
   \<and> avg_altitude (evaluateTrajectory [] expected_end) = 0
   \<and> avg_velocity (evaluateTrajectory [] expected_end) = 0
   \<and> computeSmoothnessScore [] = 1"
  by (simp add: evaluateTrajectory_def TrajectoryMetrics_default_def computeSmoothnessScore_def
      computeAverageCurvature_def computeCurvatures_def)

section \<open>The two implementations of path length and curvature agree\<close>

lemma upt_from_one: "[Suc 0 ..< n] = map Suc [0 ..< n - 1]"
  by (cases n) (simp_all add: map_Suc_upt del: upt_Suc)

lemma curvature_step_inference_eq: "curvature_step_inference t = curvature_step t"
  by (intro ext) (simp add: curvature_step_inference_def curvature_step_def Let_def)

lemma computePathLength_inference_eq: "computePathLength_inference t = computePathLength t"
proof (cases "length t < 2")
  case True
  then have "[1 ..< length t] = []" by simp
  with True show ?thesis
    by (simp add: computePathLength_inference_def computePathLength_def)
next
  case False
  then show ?thesis
    by (simp add: computePathLength_inference_def computePathLength_def upt_from_one fold_map
        comp_def Let_def del: upt_Suc)
qed

lemma computeAverageCurvature_inference_eq:
  "computeAverageCurvature_inference t = computeAverageCurvature t"
  by (simp add: computeAverageCurvature_inference_def computeAverageCurvature_def
      computeCurvatures_def curvature_step_inference_eq Let_def)

text \<open>
  Claim C10. For every trajectory, \<open>computePathLength\<close> and \<open>computeAverageCurvature\<close>
  of trajectory\_inference.cpp return the same values as the functions of the same names
  of trajectory\_metrics.cpp, and so do the two \<open>computeSmoothnessScore\<close>.
\<close>

theorem inference_utilities_agree_with_metrics:
  "computePathLength_inference t = computePathLength t
   \<and> computeAverageCurvature_inference t = computeAverageCurvature t
   \<and> computeSmoothnessScore_inference t = computeSmoothnessScore t"
  by (simp add: computePathLength_inference_eq computeAverageCurvature_inference_eq
      computeSmoothnessScore_inference_def computeSmoothnessScore_def)

section \<open>Path efficiency\<close>

lemma computePathLength_sum:
  "computePathLength t =
     (\<Sum>i<length t - 1. norm3 (wp_x (t ! (i + 1)) - wp_x (t ! i))
                              (wp_y (t ! (i + 1)) - wp_y (t ! i))
                              (wp_z (t ! (i + 1)) - wp_z (t ! i)))"
proof (cases "length t < 2")
  case True
  then have "length t - 1 = 0" by simp
  with True show ?thesis by (simp add: computePathLength_def)
next
  case False
  then show ?thesis
    by (simp add: computePathLength_def Let_def fold_add_sum)
qed

lemma norm3_scale: "norm3 (c * a) (c * b) (c * d) = \<bar>c\<bar> * norm3 a b d"
proof -
  have "c * a * (c * a) + c * b * (c * b) + c * d * (c * d) = c\<^sup>2 * (a * a + b * b + d * d)"
    by (simp add: power2_eq_square algebra_simps)
  then show ?thesis
    by (simp add: norm3_def real_sqrt_mult)
qed

lemma norm3_nonneg: "0 \<le> norm3 a b c"
  by (simp add: norm3_def)

lemma norm3_axis: "norm3 a 0 0 = \<bar>a\<bar>"
  by (simp add: norm3_def)

lemma segment_on_line:
  "norm3 (wp_x (point_on_line p d s') - wp_x (point_on_line p d s))
         (wp_y (point_on_line p d s') - wp_y (point_on_line p d s))
         (wp_z (point_on_line p d s') - wp_z (point_on_line p d s))
   = \<bar>s' - s\<bar> * norm3 (wp_x d) (wp_y d) (wp_z d)"
proof -
  have "wp_x (point_on_line p d s') - wp_x (point_on_line p d s) = (s' - s) * wp_x d"
    and "wp_y (point_on_line p d s') - wp_y (point_on_line p d s) = (s' - s) * wp_y d"
    and "wp_z (point_on_line p d s') - wp_z (point_on_line p d s) = (s' - s) * wp_z d"
    by (simp_all add: point_on_line_def algebra_simps)
  then show ?thesis by (simp only: norm3_scale)
qed

text \<open>Along a straight trajectory the segment lengths telescope.\<close>

lemma straight_path_length:
  assumes "sorted ss" and "ss \<noteq> []"
  shows "computePathLength (straight_trajectory p d ss)
         = (last ss - hd ss) * norm3 (wp_x d) (wp_y d) (wp_z d)"
proof -
  let ?D = "norm3 (wp_x d) (wp_y d) (wp_z d)"
  let ?n = "length ss - 1"
  have step: "norm3 (wp_x (straight_trajectory p d ss ! (i + 1)) - wp_x (straight_trajectory p d ss ! i))
                    (wp_y (straight_trajectory p d ss ! (i + 1)) - wp_y (straight_trajectory p d ss ! i))
                    (wp_z (straight_trajectory p d ss ! (i + 1)) - wp_z (straight_trajectory p d ss ! i))
              = (ss ! Suc i - ss ! i) * ?D" if "i < ?n" for i
  proof -
    from that have "ss ! i \<le> ss ! Suc i"
      using assms(1) by (simp add: sorted_iff_nth_mono)
    with that show ?thesis
      by (simp add: straight_trajectory_def segment_on_line)
  qed
  have "computePathLength (straight_trajectory p d ss) = (\<Sum>i<?n. (ss ! Suc i - ss ! i) * ?D)"
    unfolding computePathLength_sum using step by (simp add: straight_trajectory_def)
  also have "\<dots> = (\<Sum>i<?n. ss ! Suc i - ss ! i) * ?D"
    by (simp add: sum_distrib_right)
  also have "(\<Sum>i<?n. ss ! Suc i - ss ! i) = ss ! ?n - ss ! 0"
    by (rule sum_lessThan_telescope)
  also have "ss ! ?n = last ss" using assms(2) by (simp add: last_conv_nth)
  also have "ss ! 0 = hd ss" using assms(2) by (simp add: hd_conv_nth)
  finally show ?thesis .
qed

lemma straight_line_distance_on_line:
  assumes "sorted ss" and "2 \<le> length ss"
  shows "computeStraightLineDistance (straight_trajectory p d ss)
         = (last ss - hd ss) * norm3 (wp_x d) (wp_y d) (wp_z d)"
proof -
  from assms(2) have ne: "ss \<noteq> []" by auto
  then have "hd ss \<le> last ss"
    using assms(1) by (simp add: hd_conv_nth last_conv_nth sorted_iff_nth_mono)
  with ne assms(2) show ?thesis
    by (simp add: computeStraightLineDistance_def straight_trajectory_def Let_def hd_map last_map
        segment_on_line)
qed

lemma computePathEfficiency_cases:
  "computePathEfficiency t =
     (if length t < 2 then 1
      else if computePathLength t < epsilon then 0
      else computeStraightLineDistance t / computePathLength t)"
  by (simp add: computePathEfficiency_def Let_def)

lemma computePathEfficiency_straight:
  assumes "sorted ss"
    and "length ss < 2 \<or> epsilon \<le> computePathLength (straight_trajectory p d ss)"
  shows "computePathEfficiency (straight_trajectory p d ss) = 1"
proof (cases "length ss < 2")
  case True
  then show ?thesis by (simp add: computePathEfficiency_def straight_trajectory_def)
next
  case False
  then have len: "2 \<le> length ss" and ne: "ss \<noteq> []" by auto
  from False assms(2) have ge: "epsilon \<le> computePathLength (straight_trajectory p d ss)" by simp
  then have pos: "computePathLength (straight_trajectory p d ss) \<noteq> 0"
    by (simp add: epsilon_def)
  have "computeStraightLineDistance (straight_trajectory p d ss)
        = computePathLength (straight_trajectory p d ss)"
    by (simp add: straight_line_distance_on_line [OF assms(1) len]
        straight_path_length [OF assms(1) ne])
  with ge pos False show ?thesis
    by (simp add: computePathEfficiency_cases straight_trajectory_def)
qed

subsection \<open>Path efficiency in binary32\<close>





section \<open>Guarded divisions of the Metrics Engine\<close>

lemma curvature_step_nonneg:
  assumes "list_all (\<lambda>c. 0 \<le> c) cs"
  shows "list_all (\<lambda>c. 0 \<le> c) (curvature_step t i cs)"
proof -
  have "0 \<le> arccos (max (- 1) (min 1 x)) / n" if "epsilon < n" for x n :: real
  proof -
    have "0 \<le> arccos (max (- 1) (min 1 x))" by (rule arccos_lbound) simp_all
    moreover from that epsilon_pos have "0 < n" by linarith
    ultimately show ?thesis by simp
  qed
  with assms show ?thesis
    by (simp add: curvature_step_def Let_def)
qed

lemma fold_curvature_step_nonneg:
  "list_all (\<lambda>c. 0 \<le> c) cs \<Longrightarrow> list_all (\<lambda>c. 0 \<le> c) (fold (curvature_step t) is cs)"
  by (induction "is" arbitrary: cs) (simp_all add: curvature_step_nonneg)

lemma computeCurvatures_nonneg: "list_all (\<lambda>c. 0 \<le> c) (computeCurvatures t)"
  by (simp add: computeCurvatures_def fold_curvature_step_nonneg)

lemma accumulate_nonneg:
  "list_all (\<lambda>c. 0 \<le> c) cs \<Longrightarrow> 0 \<le> init \<Longrightarrow> 0 \<le> accumulate cs init"
  unfolding accumulate_def by (induction cs arbitrary: init) simp_all

lemma computeAverageCurvature_nonneg: "0 \<le> computeAverageCurvature t"
  using accumulate_nonneg [OF computeCurvatures_nonneg, of 0 t]
  by (simp add: computeAverageCurvature_def Let_def)

text \<open>
  The smoothness score is always defined and lies in \<open>(0, 1]\<close>, as the table of the
  specification says.
\<close>

lemma computeSmoothnessScore_range:
  "0 < computeSmoothnessScore t \<and> computeSmoothnessScore t \<le> 1"
  using computeAverageCurvature_nonneg [of t]
  by (simp add: computeSmoothnessScore_def Let_def)

text \<open>
  The divisors of the divisions written \<open>/\<close> in the Metrics Engine, each under the guard
  the source puts before it: the two in the curvature loop, the one in
  \<open>computePathEfficiency\<close>, the curvature count, the smoothness score, the segment count
  of \<open>computeAverageVelocity\<close> and the waypoint count of \<open>evaluateTrajectory\<close>.
\<close>

lemma guarded_divisors:
  "(epsilon < norm1 \<and> epsilon < norm2 \<longrightarrow> norm1 * norm2 \<noteq> 0 \<and> norm1 \<noteq> 0)
   \<and> (\<not> path_len < epsilon \<longrightarrow> path_len \<noteq> 0)
   \<and> (cs \<noteq> [] \<longrightarrow> real (length cs) \<noteq> 0)
   \<and> 1 + computeAverageCurvature t \<noteq> 0
   \<and> (\<not> length t < 2 \<longrightarrow> real (length t - 1) \<noteq> 0)
   \<and> (t \<noteq> [] \<longrightarrow> real (length t) \<noteq> 0)"
  using epsilon_pos computeAverageCurvature_nonneg [of t] by auto

section \<open>Diversity\<close>

lemma pair_distance_nonempty:
  assumes "t1 \<noteq> []" and "t2 \<noteq> []"
  shows "pair_distance t1 t2 = Some (mean_waypoint_distance t1 t2)"
proof -
  from assms have "real (min (length t1) (length t2)) \<noteq> 0" by simp
  then show ?thesis
    by (simp add: pair_distance_def mean_waypoint_distance_def Let_def fold_add_sum fdiv_Some)
qed

lemma diversity_inner_fold:
  assumes "ts ! i \<noteq> []" and "\<forall>j \<in> set js. ts ! j \<noteq> []"
  shows "fold (\<lambda>j st'. case st' of (total_distance, n_pairs) \<Rightarrow>
                 (fadd total_distance (pair_distance (ts ! i) (ts ! j)), n_pairs + 1))
              js (Some a, n)
         = (Some (a + sum_list (map (\<lambda>j. mean_waypoint_distance (ts ! i) (ts ! j)) js)),
            n + int (length js))"
  using assms(2)
proof (induction js arbitrary: a n)
  case Nil
  show ?case by simp
next
  case (Cons j js)
  then have "ts ! j \<noteq> []" and rest: "\<forall>j \<in> set js. ts ! j \<noteq> []" by simp_all
  then have "pair_distance (ts ! i) (ts ! j) = Some (mean_waypoint_distance (ts ! i) (ts ! j))"
    using assms(1) by (simp add: pair_distance_nonempty)
  then show ?case
    using Cons.IH [OF rest] by (simp add: fadd_def add.assoc)
qed

lemma diversity_outer_fold:
  assumes "\<forall>t \<in> set ts. t \<noteq> []" and "\<forall>i \<in> set is. i < length ts"
  shows "fold (diversity_inner ts) is (Some a, n)
         = (Some (a + sum_list (map (\<lambda>(i, j). mean_waypoint_distance (ts ! i) (ts ! j))
                                  (concat (map (\<lambda>i. map (Pair i) [i + 1 ..< length ts]) is)))),
            n + int (length (concat (map (\<lambda>i. map (Pair i) [i + 1 ..< length ts]) is))))"
  using assms(2)
proof (induction "is" arbitrary: a n)
  case Nil
  show ?case by simp
next
  case (Cons i "is")
  then have i: "i < length ts" and rest: "\<forall>i \<in> set is. i < length ts" by simp_all
  from i assms(1) have ne: "ts ! i \<noteq> []" by simp
  have js: "\<forall>j \<in> set [i + 1 ..< length ts]. ts ! j \<noteq> []" using assms(1) by simp
  have inner: "diversity_inner ts i (Some a, n)
        = (Some (a + sum_list (map (\<lambda>j. mean_waypoint_distance (ts ! i) (ts ! j)) [i + 1 ..< length ts])),
           n + int (length [i + 1 ..< length ts]))"
    unfolding diversity_inner_def by (rule diversity_inner_fold [OF ne js])
  show ?case
    by (simp add: inner Cons.IH [OF rest] comp_def add.assoc del: upt_Suc length_upt)
qed

lemma unordered_pairs_set: "set (unordered_pairs n) = {(i, j). i < j \<and> j < n}"
proof (intro set_eqI iffI)
  fix p assume "p \<in> set (unordered_pairs n)"
  then show "p \<in> {(i, j). i < j \<and> j < n}" by (auto simp: unordered_pairs_def)
next
  fix p :: "nat \<times> nat" assume "p \<in> {(i, j). i < j \<and> j < n}"
  then obtain i j where p: "p = (i, j)" and "i < j" and "j < n" by auto
  then have "i \<in> set [0 ..< n]" and "(i, j) \<in> set (map (Pair i) [i + 1 ..< n])" by auto
  then show "p \<in> set (unordered_pairs n)" unfolding p unordered_pairs_def set_concat by force
qed

lemma unordered_pairs_nonempty: "2 \<le> n \<Longrightarrow> unordered_pairs n \<noteq> []"
proof -
  assume "2 \<le> n"
  then have "(0, 1) \<in> set (unordered_pairs n)"
    by (simp add: unordered_pairs_set)
  then show ?thesis by auto
qed

text \<open>
  For a set of non-empty trajectories \<open>computeDiversity\<close> is the diversity of the
  specification, and two identical non-empty trajectories have the diversity 0.
\<close>

lemma computeDiversity_nonempty:
  assumes "\<forall>t \<in> set ts. t \<noteq> []"
  shows "computeDiversity ts = Some (diversity_spec ts)"
proof (cases "length ts < 2")
  case True
  then show ?thesis by (simp add: computeDiversity_def diversity_spec_def)
next
  case False
  then have "unordered_pairs (length ts) \<noteq> []" by (simp add: unordered_pairs_nonempty)
  then have pos: "0 < length (unordered_pairs (length ts))" by simp
  have "fold (diversity_inner ts) [0 ..< length ts] (Some 0, 0)
        = (Some (sum_list (map (\<lambda>(i, j). mean_waypoint_distance (ts ! i) (ts ! j))
                                  (unordered_pairs (length ts)))),
           int (length (unordered_pairs (length ts))))"
    using diversity_outer_fold [OF assms, of "[0 ..< length ts]" 0 0]
    by (simp add: unordered_pairs_def)
  with False pos show ?thesis
    by (simp add: computeDiversity_def diversity_spec_def)
qed

lemma unordered_pairs_distinct: "distinct (unordered_pairs n)"
  unfolding unordered_pairs_def
proof (rule distinct_concat)
  have "inj_on (\<lambda>i. map (Pair i) [i + 1 ..< n]) (set [0 ..< n])"
  proof (rule inj_onI)
    fix x y assume "x \<in> set [0 ..< n]" and "y \<in> set [0 ..< n]"
      and "map (Pair x) [x + 1 ..< n] = map (Pair y) [y + 1 ..< n]"
    then have "x < n" and "y < n"
      and "length (map (Pair x) [x + 1 ..< n]) = length (map (Pair y) [y + 1 ..< n])"
      by simp_all
    then show "x = y" by simp
  qed
  then show "distinct (map (\<lambda>i. map (Pair i) [i + 1 ..< n]) [0 ..< n])"
    by (simp add: distinct_map)
next
  fix ys assume "ys \<in> set (map (\<lambda>i. map (Pair i) [i + 1 ..< n]) [0 ..< n])"
  then show "distinct ys" by (auto simp: distinct_map inj_on_def)
next
  fix ys zs
  assume "ys \<in> set (map (\<lambda>i. map (Pair i) [i + 1 ..< n]) [0 ..< n])"
    and "zs \<in> set (map (\<lambda>i. map (Pair i) [i + 1 ..< n]) [0 ..< n])" and "ys \<noteq> zs"
  then show "set ys \<inter> set zs = {}" by auto
qed

lemma mean_waypoint_distance_same: "mean_waypoint_distance t t = 0"
  by (simp add: mean_waypoint_distance_def norm3_def)

lemma computeDiversity_identical_nonempty:
  "t \<noteq> [] \<Longrightarrow> computeDiversity [t, t] = Some 0"
  by (simp add: computeDiversity_nonempty diversity_spec_def unordered_pairs_def
      mean_waypoint_distance_same upt_rec)

subsection \<open>Sets that hold an empty trajectory\<close>

text \<open>
  Claim C3 says that every division of the Metrics Engine is guarded, the one by the
  shorter trajectory length inside \<open>computeDiversity\<close> included. That division has no
  guard: for a set that holds an empty trajectory the shorter length is 0, the quotient
  is \<open>0 / 0\<close>, and the result is not a number.
\<close>

theorem computeDiversity_with_empty_trajectory_is_nan:
  "computeDiversity [[], [\<lparr>wp_x = 0, wp_y = 0, wp_z = 0\<rparr>]] = None"
  by (simp add: computeDiversity_def diversity_inner_def pair_distance_def fdiv_def fadd_def)

text \<open>
  Claim C7 says that \<open>computeDiversity\<close> of two identical trajectories is 0. For two
  identical empty trajectories the result is not a number and so not 0.
\<close>

theorem computeDiversity_two_empty_trajectories_not_zero:
  "computeDiversity [[], []] = None \<and> computeDiversity [[], []] \<noteq> Some 0"
  by (simp add: computeDiversity_def diversity_inner_def pair_distance_def fdiv_def fadd_def)

section \<open>Ranking\<close>

lemma f32_gt_key:
  "a \<noteq> F32_NaN \<Longrightarrow> b \<noteq> F32_NaN \<Longrightarrow> f32_gt a b = (f32_key b < f32_key a)"
  by (cases a; cases b) (simp_all add: f32_gt_def f32_lt_def f32_key_def)

lemma trajectory_scores_eq:
  "trajectory_scores acosf ts e w1 w2 w3 =
     map (\<lambda>i. (candidate_score acosf ts e w1 w2 w3 i, i)) [0 ..< length ts]"
  by (simp add: trajectory_scores_def candidate_score_def Let_def fold_snoc_map)

lemma ranked_indices_eq: "ranked_indices scores = map snd scores"
  by (simp add: ranked_indices_def fold_snoc_map)

lemma score_greater_swo:
  assumes "\<forall>p \<in> A. fst p \<noteq> F32_NaN"
  shows "strict_weak_order_on A score_greater"
proof -
  have k: "score_greater a b = (f32_key (fst b) < f32_key (fst a))" if "a \<in> A" "b \<in> A" for a b
    using that assms by (simp add: score_greater_def f32_gt_key)
  show ?thesis
    unfolding strict_weak_order_on_def
    by (intro conjI ballI impI) (auto simp: k)
qed

text \<open>The contract of \<open>std_sort\<close> can be met: a descending sort by score is a result.\<close>

lemma std_sort_nonempty:
  assumes "\<forall>p \<in> set xs. fst p \<noteq> F32_NaN"
  shows "rev (sort_key (\<lambda>p. f32_key (fst p)) xs)
         \<in> {ys. mset ys = mset xs \<and> sorted_wrt (\<lambda>a b. \<not> score_greater b a) ys}"
proof -
  let ?ys = "sort_key (\<lambda>p. f32_key (fst p)) xs"
  have "sorted (map (\<lambda>p. f32_key (fst p)) ?ys)" by simp
  then have "sorted_wrt (\<lambda>a b. f32_key (fst a) \<le> f32_key (fst b)) ?ys"
    by (simp add: sorted_wrt_map)
  then have "sorted_wrt (\<lambda>a b. \<not> score_greater a b) ?ys"
  proof (rule sorted_wrt_mono_rel [rotated])
    fix a b assume "a \<in> set ?ys" "b \<in> set ?ys" "f32_key (fst a) \<le> f32_key (fst b)"
    then show "\<not> score_greater a b"
      using assms by (simp add: score_greater_def f32_gt_key not_less)
  qed
  then have "sorted_wrt (\<lambda>a b. \<not> score_greater b a) (rev ?ys)"
    by (simp add: sorted_wrt_rev)
  then show ?thesis by simp
qed

lemma sorted_scores_ranking:
  assumes "mset ys = mset (map (\<lambda>i. (f i, i)) is)"
    and "sorted_wrt (\<lambda>a b. \<not> score_greater b a) ys"
  shows "mset (map snd ys) = mset is"
    and "sorted_wrt (\<lambda>i j. \<not> f32_gt (f j) (f i)) (map snd ys)"
proof -
  have "mset (map snd ys) = image_mset snd (mset ys)" by simp
  also have "\<dots> = mset (map snd (map (\<lambda>i. (f i, i)) is))" by (simp only: assms(1) mset_map)
  also have "\<dots> = mset is" by (simp add: comp_def)
  finally show "mset (map snd ys) = mset is" .
  have "set ys = set (map (\<lambda>i. (f i, i)) is)" using assms(1) by (rule mset_eq_setD)
  then have fst_snd: "fst a = f (snd a)" if "a \<in> set ys" for a using that by auto
  have "sorted_wrt (\<lambda>a b. \<not> f32_gt (f (snd b)) (f (snd a))) ys"
    using assms(2) by (rule sorted_wrt_mono_rel [rotated]) (simp add: score_greater_def fst_snd)
  then show "sorted_wrt (\<lambda>i j. \<not> f32_gt (f j) (f i)) (map snd ys)" by (simp add: sorted_wrt_map)
qed

lemma rankTrajectories_member:
  assumes "rankTrajectories acosf ts e w1 w2 w3 = Some R"
    and "mset ys = mset (trajectory_scores acosf ts e w1 w2 w3)"
    and "sorted_wrt (\<lambda>a b. \<not> score_greater b a) ys"
  shows "map snd ys \<in> R"
  using assms
  by (auto simp: rankTrajectories_def std_sort_def ranked_indices_eq split: if_splits)

subsection \<open>Seventeen candidates of equal score\<close>

lemma quality_score_default_metrics:
  "quality_score (F32 a) (F32 b) (F32 c) TrajectoryMetrics_f32_default = F32 0"
  by (simp add: quality_score_def TrajectoryMetrics_f32_default_def f32_sub_def f32_add_def
      f32_mul_def f32_div_def f32_neg_def round32_zero)

lemma candidate_score_empty:
  "i < 17 \<Longrightarrow> candidate_score acosf seventeen_empty e (F32 a) (F32 b) (F32 c) i = F32 0"
  by (simp add: candidate_score_def seventeen_empty_def evaluateTrajectory_f32_def
      quality_score_default_metrics)

lemma seventeen_scores:
  "trajectory_scores acosf seventeen_empty e (F32 a) (F32 b) (F32 c)
   = map (Pair (F32 0)) [0 ..< 17]"
proof -
  have "map (\<lambda>i. (candidate_score acosf seventeen_empty e (F32 a) (F32 b) (F32 c) i, i)) [0 ..< 17]
        = map (Pair (F32 0)) [0 ..< 17]"
    by (rule map_cong) (simp_all add: candidate_score_empty)
  then show ?thesis
    by (simp add: trajectory_scores_eq seventeen_empty_def)
qed

lemma seventeen_sorted:
  "libstdcxx_sort score_greater (map (Pair (F32 0)) [0 ..< 17])
   = Inr (map (Pair (F32 0)) [8, 16, 15, 14, 13, 12, 11, 10, 9, 0, 7, 6, 5, 4, 3, 2, 1])"
  by code_simp

text \<open>
  Claim C1, as stated, asks in addition that ties are broken by ascending original
  index. \<^verbatim>\<open>std::sort\<close> with a comparator on the score alone does not do that. For
  seventeen empty candidates, which all get the score 0, the partition step of the
  libstdc++ introsort swaps equal elements, and \<open>rankTrajectories\<close> returns the indices
  in the order 8, 16, 15, ..., 9, 0, 7, ..., 1: index 8 stands before index 0.
\<close>

theorem rankTrajectories_ties_counterexample:
  "rankTrajectories_libstdcxx acosf_rounded seventeen_empty origin_f32
      w1_default w2_default w3_default
     = Inr [8, 16, 15, 14, 13, 12, 11, 10, 9, 0, 7, 6, 5, 4, 3, 2, 1]
   \<and> map (candidate_score acosf_rounded seventeen_empty origin_f32
            w1_default w2_default w3_default) [0 ..< 17] = replicate 17 (F32 0)
   \<and> \<not> ties_by_ascending_index
          (candidate_score acosf_rounded seventeen_empty origin_f32
             w1_default w2_default w3_default)
          [8, 16, 15, 14, 13, 12, 11, 10, 9, 0, 7, 6, 5, 4, 3, 2, 1]"
proof -
  let ?f = "candidate_score acosf_rounded seventeen_empty origin_f32
              w1_default w2_default w3_default"
  have a: "rankTrajectories_libstdcxx acosf_rounded seventeen_empty origin_f32
      w1_default w2_default w3_default
     = Inr [8, 16, 15, 14, 13, 12, 11, 10, 9, 0, 7, 6, 5, 4, 3, 2, 1]"
    unfolding rankTrajectories_libstdcxx_def w1_default_def w2_default_def w3_default_def
      seventeen_scores seventeen_sorted
    by (simp add: ranked_indices_eq)
  have "map ?f [0 ..< 17] = map (\<lambda>i. F32 0) [0 ..< 17]"
    unfolding w1_default_def w2_default_def w3_default_def
    by (rule map_cong) (simp_all add: candidate_score_empty)
  then have b: "map ?f [0 ..< 17] = replicate 17 (F32 0)"
    by (simp add: map_replicate_const)
  have "?f 8 = F32 0" "?f 0 = F32 0"
    unfolding w1_default_def w2_default_def w3_default_def
    by (simp_all add: candidate_score_empty)
  then have c: "\<not> ties_by_ascending_index ?f [8, 16, 15, 14, 13, 12, 11, 10, 9, 0, 7, 6, 5, 4, 3, 2, 1]"
    by (simp add: ties_by_ascending_index_def)
  from a b c show ?thesis by blast
qed

text \<open>Both this order and the ascending one are within the contract of \<^verbatim>\<open>std::sort\<close>.\<close>

lemma seventeen_in_contract:
  "\<exists>R. rankTrajectories acosf_rounded seventeen_empty origin_f32 w1_default w2_default w3_default
         = Some R
       \<and> [8, 16, 15, 14, 13, 12, 11, 10, 9, 0, 7, 6, 5, 4, 3, 2, 1] \<in> R \<and> [0 ..< 17] \<in> R"
proof -
  let ?xs = "map (Pair (F32 0)) [0 ..< 17] :: (f32 \<times> nat) list"
  have swo: "strict_weak_order_on (set ?xs) score_greater"
    by (rule score_greater_swo) auto
  let ?S = "{ys. mset ys = mset ?xs \<and> sorted_wrt (\<lambda>a b. \<not> score_greater b a) ys}"
  have R: "rankTrajectories acosf_rounded seventeen_empty origin_f32 w1_default w2_default
             w3_default = Some (ranked_indices ` ?S)"
    unfolding rankTrajectories_def w1_default_def w2_default_def w3_default_def seventeen_scores
    using swo by (simp add: std_sort_def)
  have m1: "map (Pair (F32 0)) [8, 16, 15, 14, 13, 12, 11, 10, 9, 0, 7, 6, 5, 4, 3, 2, 1] \<in> ?S"
    by (simp add: score_greater_def f32_gt_def f32_lt_def eval_nat_numeral upt_rec [of 0])
  have m2: "?xs \<in> ?S"
    by (simp add: score_greater_def f32_gt_def f32_lt_def sorted_wrt_map)
  have "ranked_indices (map (Pair (F32 0)) [8, 16, 15, 14, 13, 12, 11, 10, 9, 0, 7, 6, 5, 4, 3, 2, 1])
        \<in> ranked_indices ` ?S" using m1 by (rule imageI)
  moreover have "ranked_indices ?xs \<in> ranked_indices ` ?S" using m2 by (rule imageI)
  ultimately show ?thesis unfolding R by (simp add: ranked_indices_eq comp_def)
qed

subsection \<open>A NaN score\<close>

lemma single_point_metrics:
  "path_efficiency_f32 (evaluateTrajectory_f32 acosf [wp] e) = F32 1"
  "smoothness_score_f32 (evaluateTrajectory_f32 acosf [wp] e) = F32 1"
  "endpoint_error_f32 (evaluateTrajectory_f32 acosf [wp] e)
     = norm3_f32 (f32_sub (x32 wp) (x32 e)) (f32_sub (y32 wp) (y32 e)) (f32_sub (z32 wp) (z32 e))"
  by (simp_all add: evaluateTrajectory_f32_def Let_def altitude_step_f32_def
      computePathEfficiency_f32_def computeSmoothnessScore_f32_def
      computeAverageCurvature_f32_def computeCurvatures_f32_def computeEndpointError_f32_def
      f32_div_F32 f32_add_F32 round32_one split: prod.splits)

lemma norm3_f32_axis:
  fixes k :: int
  assumes "0 \<le> k" "k < 2 ^ 12"
  shows "norm3_f32 (f32_sub (F32 (of_int k)) (F32 0)) (f32_sub (F32 0) (F32 0)) (f32_sub (F32 0) (F32 0))
         = F32 (of_int k)"
proof -
  from assms have "\<bar>k\<bar> < 2 ^ 24" by simp
  then have r1: "round32 (of_int k) = F32 (of_int k)" by (rule round32_of_int)
  have "k * k < 2 ^ 12 * 2 ^ 12"
    using assms by (intro mult_strict_mono) simp_all
  with assms have "\<bar>k * k\<bar> < 2 ^ 24" by simp
  then have "round32 (of_int (k * k)) = F32 (of_int (k * k))" by (rule round32_of_int)
  then have r2: "round32 (of_int k * of_int k) = F32 (of_int k * of_int k)" by simp
  have r3: "\<bar>real_of_int k\<bar> = of_int k" using assms(1) by simp
  show ?thesis
    by (simp add: norm3_f32_def f32_sub_F32 f32_mul_F32 f32_add_F32 f32_sqrt_def round32_zero
        r1 r2 r3)
qed

lemma endpoint_errors:
  "norm3_f32 (f32_sub (F32 0) (F32 0)) (f32_sub (F32 0) (F32 0)) (f32_sub (F32 0) (F32 0)) = F32 0"
  "norm3_f32 (f32_sub (F32 200) (F32 0)) (f32_sub (F32 0) (F32 0)) (f32_sub (F32 0) (F32 0)) = F32 200"
  "norm3_f32 (f32_sub (F32 100) (F32 0)) (f32_sub (F32 0) (F32 0)) (f32_sub (F32 0) (F32 0)) = F32 100"
  "norm3_f32 (f32_sub F32_NaN (F32 0)) (f32_sub (F32 0) (F32 0)) (f32_sub (F32 0) (F32 0)) = F32_NaN"
  using norm3_f32_axis [of 0] norm3_f32_axis [of 200] norm3_f32_axis [of 100]
  by (simp_all add: norm3_f32_def f32_sub_def f32_add_def f32_mul_def f32_neg_def f32_sqrt_def)

lemma round32_default_weights:
  "round32 (5033165 / 16777216) = F32 (5033165 / 16777216)"
  "round32 (1 / 2) = F32 (1 / 2)"
  "round32 (13421773 / 16777216) = F32 (13421773 / 16777216)"
  "round32 (13421773 / 33554432) = F32 (13421773 / 33554432)"
  "round32 (13421773 / 67108864) = F32 (13421773 / 67108864)"
  "round32 2 = F32 2"
  by (rule round32_representable [where k = 5033165 and j = "- 24"], simp_all)
     (rule round32_representable [where k = 1 and j = "- 1"], simp_all,
      rule round32_representable [where k = 13421773 and j = "- 24"], simp_all,
      rule round32_representable [where k = 13421773 and j = "- 25"], simp_all,
      rule round32_representable [where k = 13421773 and j = "- 26"], simp_all,
      rule round32_representable [where k = 2 and j = 0], simp_all)

lemma round32_three_fifths: "round32 (40265319 / 67108864) = F32 (5033165 / 8388608)"
proof -
  have "f32_exponent \<bar>40265319 / 67108864 :: real\<bar> = - 1" by (rule f32_exponent_eq) simp_all
  then show ?thesis by (simp add: round32_def Let_def round_half_even_def)
qed

lemma default_quality_scores:
  "quality_score w1_default w2_default w3_default
     (m\<lparr>path_efficiency_f32 := F32 1, smoothness_score_f32 := F32 1, endpoint_error_f32 := F32 0\<rparr>)
   = F32 (13421773 / 16777216)"
  "quality_score w1_default w2_default w3_default
     (m\<lparr>path_efficiency_f32 := F32 1, smoothness_score_f32 := F32 1, endpoint_error_f32 := F32 200\<rparr>)
   = F32 (13421773 / 33554432)"
  "quality_score w1_default w2_default w3_default
     (m\<lparr>path_efficiency_f32 := F32 1, smoothness_score_f32 := F32 1, endpoint_error_f32 := F32 100\<rparr>)
   = F32 (5033165 / 8388608)"
  "quality_score w1_default w2_default w3_default
     (m\<lparr>path_efficiency_f32 := F32 1, smoothness_score_f32 := F32 1, endpoint_error_f32 := F32_NaN\<rparr>)
   = F32_NaN"
  by (simp_all add: quality_score_def w1_default_def w2_default_def w3_default_def
      f32_mul_F32 f32_add_F32 f32_sub_F32 f32_div_F32 round32_zero round32_one
      round32_default_weights round32_three_fifths)
     (simp add: f32_div_def f32_mul_def f32_sub_def f32_add_def f32_neg_def)

lemma quality_score_fields:
  "quality_score w1 w2 w3 metrics
   = quality_score w1 w2 w3
       (metrics\<lparr>path_efficiency_f32 := path_efficiency_f32 metrics,
                smoothness_score_f32 := smoothness_score_f32 metrics,
                endpoint_error_f32 := endpoint_error_f32 metrics\<rparr>)"
  by simp

lemma nan_candidate_scores:
  "candidate_score acosf nan_candidates origin_f32 w1_default w2_default w3_default 0
     = F32 (13421773 / 16777216)"
  "candidate_score acosf nan_candidates origin_f32 w1_default w2_default w3_default (Suc 0)
     = F32 (13421773 / 33554432)"
  "candidate_score acosf nan_candidates origin_f32 w1_default w2_default w3_default 2
     = F32_NaN"
  "candidate_score acosf nan_candidates origin_f32 w1_default w2_default w3_default 3
     = F32 (5033165 / 8388608)"
  unfolding candidate_score_def nan_candidates_def
  by (subst quality_score_fields,
      simp add: single_point_metrics point_f32_def origin_f32_def endpoint_errors
        default_quality_scores eval_nat_numeral)+

lemma nan_scores:
  "trajectory_scores acosf nan_candidates origin_f32 w1_default w2_default w3_default
   = [(F32 (13421773 / 16777216), 0), (F32 (13421773 / 33554432), 1), (F32_NaN, 2),
      (F32 (5033165 / 8388608), 3)]"
proof -
  have "length nan_candidates = 4" by (simp add: nan_candidates_def)
  moreover have "[0 ..< 4] = [0, Suc 0, 2, 3]" by (simp add: eval_nat_numeral)
  ultimately show ?thesis
    by (simp add: trajectory_scores_eq nan_candidate_scores)
qed

lemma nan_sorted:
  "libstdcxx_sort score_greater
     [(F32 (13421773 / 16777216), 0), (F32 (13421773 / 33554432), 1), (F32_NaN, 2),
      (F32 (5033165 / 8388608), 3)]
   = Inr [(F32 (13421773 / 16777216), 0), (F32 (13421773 / 33554432), 1), (F32_NaN, 2),
          (F32 (5033165 / 8388608), 3)]"
  by code_simp

text \<open>
  With a NaN score the comparator is no strict weak ordering, and the behaviour of
  \<^verbatim>\<open>std::sort\<close> is undefined. The insertion sort of libstdc++ then leaves the scores
  0.8, 0.4, NaN, 0.6 of \<open>nan_candidates\<close> in their places, so that the candidate with
  the score 0.4 stands before the one with the score 0.6.
\<close>

lemma rankTrajectories_nan_score:
  "rankTrajectories_libstdcxx acosf nan_candidates origin_f32 w1_default w2_default w3_default
     = Inr [0, 1, 2, 3]
   \<and> f32_gt (candidate_score acosf nan_candidates origin_f32 w1_default w2_default w3_default 3)
            (candidate_score acosf nan_candidates origin_f32 w1_default w2_default w3_default 1)
   \<and> rankTrajectories acosf nan_candidates origin_f32 w1_default w2_default w3_default = None"
proof -
  have a: "rankTrajectories_libstdcxx acosf nan_candidates origin_f32 w1_default w2_default
             w3_default = Inr [0, 1, 2, 3]"
    unfolding rankTrajectories_libstdcxx_def nan_scores nan_sorted
    by (simp add: ranked_indices_eq)
  have b: "f32_gt (candidate_score acosf nan_candidates origin_f32 w1_default w2_default w3_default 3)
            (candidate_score acosf nan_candidates origin_f32 w1_default w2_default w3_default 1)"
    using nan_candidate_scores [of acosf] by (simp add: f32_gt_def f32_lt_def)
  have "\<not> strict_weak_order_on
           (set [(F32 (13421773 / 16777216), 0::nat), (F32 (13421773 / 33554432), 1), (F32_NaN, 2),
                 (F32 (5033165 / 8388608), 3)]) score_greater"
    unfolding strict_weak_order_on_def
    apply (simp add: score_greater_def f32_gt_def f32_lt_def)
    done
  then have c: "rankTrajectories acosf nan_candidates origin_f32 w1_default w2_default w3_default
                = None"
    unfolding rankTrajectories_def nan_scores by (simp add: std_sort_def)
  from a b c show ?thesis by blast
qed

subsection \<open>The ranking is a sorted permutation\<close>

text \<open>
  Claim C1, amended. For every list of \<open>n\<close> candidate trajectories, every expected end
  waypoint and all weights (the defaults are 0.3, 0.5, 0.2), the score of a candidate
  is \<open>w1 * path_efficiency + w2 * smoothness_score - w3 * (endpoint_error / 100.0)\<close> of
  its metrics, computed in \<^verbatim>\<open>float\<close>. When no candidate's score is NaN,
  \<open>rankTrajectories\<close> returns a result, and every result that \<^verbatim>\<open>std::sort\<close> may give is
  a permutation of the indices \<open>0..n-1\<close> sorted by descending score: no index stands
  before an index of a greater score. The order among indices of equal score is not
  determined.
\<close>

theorem rankTrajectories_sorted_permutation:
  assumes "\<forall>i < length ts. candidate_score acosf ts e w1 w2 w3 i \<noteq> F32_NaN"
  shows "(\<exists>R. rankTrajectories acosf ts e w1 w2 w3 = Some R \<and> R \<noteq> {}
            \<and> (\<forall>out \<in> R. mset out = mset [0 ..< length ts]
                  \<and> sorted_wrt (\<lambda>i j. \<not> f32_gt (candidate_score acosf ts e w1 w2 w3 j)
                                            (candidate_score acosf ts e w1 w2 w3 i)) out))
         \<and> candidate_score acosf ts e w1 w2 w3 k
             = f32_sub (f32_add (f32_mul w1 (path_efficiency_f32 (evaluateTrajectory_f32 acosf (ts ! k) e)))
                                (f32_mul w2 (smoothness_score_f32 (evaluateTrajectory_f32 acosf (ts ! k) e))))
                       (f32_mul w3 (f32_div (endpoint_error_f32 (evaluateTrajectory_f32 acosf (ts ! k) e))
                                            (F32 100)))"
proof -
  let ?f = "candidate_score acosf ts e w1 w2 w3"
  let ?xs = "trajectory_scores acosf ts e w1 w2 w3"
  let ?S = "{ys. mset ys = mset ?xs \<and> sorted_wrt (\<lambda>a b. \<not> score_greater b a) ys}"
  have nn: "\<forall>p \<in> set ?xs. fst p \<noteq> F32_NaN"
    using assms by (auto simp: trajectory_scores_eq)
  then have "strict_weak_order_on (set ?xs) score_greater" by (rule score_greater_swo)
  then have R: "rankTrajectories acosf ts e w1 w2 w3 = Some (ranked_indices ` ?S)"
    by (simp add: rankTrajectories_def std_sort_def)
  have ne: "ranked_indices ` ?S \<noteq> {}"
    using std_sort_nonempty [OF nn] by blast
  have "mset out = mset [0 ..< length ts]
        \<and> sorted_wrt (\<lambda>i j. \<not> f32_gt (?f j) (?f i)) out" if "out \<in> ranked_indices ` ?S" for out
  proof -
    from that obtain ys where ys: "mset ys = mset ?xs"
      "sorted_wrt (\<lambda>a b. \<not> score_greater b a) ys" and out: "out = map snd ys"
      by (auto simp: ranked_indices_eq)
    from ys show ?thesis
      unfolding out trajectory_scores_eq
      using sorted_scores_ranking [of ys ?f "[0 ..< length ts]"] by simp
  qed
  with R ne have "\<exists>R. rankTrajectories acosf ts e w1 w2 w3 = Some R \<and> R \<noteq> {}
            \<and> (\<forall>out \<in> R. mset out = mset [0 ..< length ts]
                  \<and> sorted_wrt (\<lambda>i j. \<not> f32_gt (?f j) (?f i)) out)"
    by blast
  then show ?thesis by (simp add: candidate_score_def quality_score_def)
qed

lemma two_candidate_scores:
  "candidate_score acosf two_candidates origin_f32 w1_default w2_default w3_default 0 = F32 0"
  "candidate_score acosf two_candidates origin_f32 w1_default w2_default w3_default (Suc 0)
     = F32 (13421773 / 16777216)"
proof -
  show "candidate_score acosf two_candidates origin_f32 w1_default w2_default w3_default 0 = F32 0"
    by (simp add: candidate_score_def two_candidates_def evaluateTrajectory_f32_def
        w1_default_def w2_default_def w3_default_def quality_score_default_metrics)
  show "candidate_score acosf two_candidates origin_f32 w1_default w2_default w3_default (Suc 0)
     = F32 (13421773 / 16777216)"
    unfolding candidate_score_def two_candidates_def
    by (subst quality_score_fields)
       (simp add: single_point_metrics point_f32_def origin_f32_def endpoint_errors
          default_quality_scores)
qed

lemma two_scores:
  "trajectory_scores acosf two_candidates origin_f32 w1_default w2_default w3_default
   = [(F32 0, 0), (F32 (13421773 / 16777216), 1)]"
proof -
  have "length two_candidates = 2" by (simp add: two_candidates_def)
  moreover have "[0 ..< 2] = [0, Suc 0]" by (simp add: eval_nat_numeral)
  ultimately show ?thesis
    by (simp add: trajectory_scores_eq two_candidate_scores)
qed

lemma two_sorted:
  "libstdcxx_sort score_greater [(F32 0, 0), (F32 (13421773 / 16777216), 1)]
   = Inr [(F32 (13421773 / 16777216), 1), (F32 0, 0)]"
  by code_simp

theorem rankTrajectories_sorted_permutation_witness:
  "candidate_score acosf_rounded two_candidates origin_f32 w1_default w2_default w3_default 0 = F32 0
   \<and> candidate_score acosf_rounded two_candidates origin_f32 w1_default w2_default w3_default 1
       = F32 (13421773 / 16777216)
   \<and> rankTrajectories_libstdcxx acosf_rounded two_candidates origin_f32
        w1_default w2_default w3_default = Inr [1, 0]
   \<and> (\<exists>R. rankTrajectories acosf_rounded two_candidates origin_f32
              w1_default w2_default w3_default = Some R \<and> [1, 0] \<in> R \<and> [0, 1] \<notin> R)"
proof -
  let ?f = "candidate_score acosf_rounded two_candidates origin_f32 w1_default w2_default w3_default"
  have len: "length two_candidates = 2" by (simp add: two_candidates_def)
  have s0: "?f 0 = F32 0" and s1: "?f 1 = F32 (13421773 / 16777216)"
    using two_candidate_scores [of acosf_rounded] by simp_all
  have "i < 2 \<Longrightarrow> i = 0 \<or> i = 1" for i :: nat by auto
  with s0 s1 have nn: "\<forall>i < length two_candidates. ?f i \<noteq> F32_NaN"
    unfolding len by (metis f32.distinct(3))
  from rankTrajectories_sorted_permutation [OF nn]
  obtain R where R: "rankTrajectories acosf_rounded two_candidates origin_f32
                       w1_default w2_default w3_default = Some R"
    and ne: "R \<noteq> {}"
    and all: "\<forall>out \<in> R. mset out = mset [0 ..< length two_candidates]
                \<and> sorted_wrt (\<lambda>i j. \<not> f32_gt (?f j) (?f i)) out"
    by blast
  have notin: "[0, 1] \<notin> R"
  proof
    assume "[0, 1] \<in> R"
    with all have "sorted_wrt (\<lambda>i j. \<not> f32_gt (?f j) (?f i)) [0, 1]" by blast
    then have "\<not> f32_gt (?f 1) (?f 0)" by simp
    then show False unfolding s0 s1 by (simp add: f32_gt_def f32_lt_def)
  qed
  have "map snd [(F32 (13421773 / 16777216), 1::nat), (F32 0, 0)] \<in> R"
    using R
    by (rule rankTrajectories_member)
       (simp_all add: two_scores score_greater_def f32_gt_def f32_lt_def)
  then have "[1, 0] \<in> R" by simp
  moreover have "rankTrajectories_libstdcxx acosf_rounded two_candidates origin_f32
        w1_default w2_default w3_default = Inr [1, 0]"
    unfolding rankTrajectories_libstdcxx_def two_scores two_sorted
    by (simp add: ranked_indices_eq)
  ultimately show ?thesis using s0 s1 R notin by blast
qed

section \<open>Normalization round trip\<close>

text \<open>
  The error of the four rounded operations of one axis: \<open>a\<close> is the rounded difference,
  \<open>q\<close> the rounded quotient, \<open>p\<close> the rounded product and \<open>r\<close> the rounded sum.
\<close>

lemma roundtrip_error_bound:
  fixes x m s a q p r :: real
  assumes s: "s \<noteq> 0"
    and e1: "\<bar>a - (x - m)\<bar> \<le> \<bar>x - m\<bar> / 2 ^ 24 + 1 / 2 ^ 150"
    and e2: "\<bar>q - a / s\<bar> \<le> \<bar>a / s\<bar> / 2 ^ 24 + 1 / 2 ^ 150"
    and e3: "\<bar>p - q * s\<bar> \<le> \<bar>q * s\<bar> / 2 ^ 24 + 1 / 2 ^ 150"
    and e4: "\<bar>r - (p + m)\<bar> \<le> \<bar>p + m\<bar> / 2 ^ 24 + 1 / 2 ^ 150"
  shows "\<bar>r - x\<bar> \<le> \<bar>x - m\<bar> / 2 ^ 22 + \<bar>x\<bar> / 2 ^ 23 + (\<bar>s\<bar> + 4) / 2 ^ 149"
proof -
  define D where "D = \<bar>x - m\<bar>"
  define S where "S = \<bar>s\<bar>"
  define A where "A = \<bar>a\<bar>"
  have Dn: "0 \<le> D" and Sn: "0 < S" and An: "0 \<le> A" using s by (simp_all add: D_def S_def A_def)
  have a_bound: "A \<le> D + D / 2 ^ 24 + 1 / 2 ^ 150"
    using e1 unfolding D_def A_def by linarith
  have "\<bar>q - a / s\<bar> * S \<le> (\<bar>a / s\<bar> / 2 ^ 24 + 1 / 2 ^ 150) * S"
    using e2 Sn by (intro mult_right_mono) simp_all
  moreover have "(q - a / s) * s = q * s - a"
    using s by (simp add: left_diff_distrib)
  then have "\<bar>q - a / s\<bar> * S = \<bar>q * s - a\<bar>"
    unfolding S_def by (metis abs_mult)
  moreover have "\<bar>a / s\<bar> * S = A"
    using s by (simp add: S_def A_def abs_divide)
  ultimately have e2': "\<bar>q * s - a\<bar> \<le> A / 2 ^ 24 + S / 2 ^ 150"
    by (simp add: algebra_simps)
  have qs: "\<bar>q * s\<bar> \<le> A + A / 2 ^ 24 + S / 2 ^ 150"
    using e2' unfolding A_def by linarith
  have "\<bar>q * s\<bar> / 2 ^ 24 \<le> (A + A / 2 ^ 24 + S / 2 ^ 150) / 2 ^ 24"
    using qs by (rule divide_right_mono) simp
  with e3 e2'
  have pa: "\<bar>p - a\<bar> \<le> (A + A / 2 ^ 24 + S / 2 ^ 150) / 2 ^ 24 + 1 / 2 ^ 150 + A / 2 ^ 24 + S / 2 ^ 150"
    by linarith
  define E where "E = (A + A / 2 ^ 24 + S / 2 ^ 150) / 2 ^ 24 + 1 / 2 ^ 150
                 + A / 2 ^ 24 + S / 2 ^ 150 + D / 2 ^ 24 + 1 / 2 ^ 150"
  have pxm: "\<bar>p - (x - m)\<bar> \<le> E"
    using pa e1 unfolding D_def E_def by linarith
  have pm: "\<bar>p + m\<bar> \<le> \<bar>x\<bar> + E" using pxm by linarith
  have "\<bar>p + m\<bar> / 2 ^ 24 \<le> (\<bar>x\<bar> + E) / 2 ^ 24"
    using pm by (rule divide_right_mono) simp
  with e4 pxm have rx: "\<bar>r - x\<bar> \<le> (\<bar>x\<bar> + E) / 2 ^ 24 + 1 / 2 ^ 150 + E"
    by linarith
  have "(\<bar>x\<bar> + E) / 2 ^ 24 + 1 / 2 ^ 150 + E \<le> D / 2 ^ 22 + \<bar>x\<bar> / 2 ^ 23 + (S + 4) / 2 ^ 149"
    using a_bound Dn Sn An unfolding E_def by (simp add: field_simps)
  with rx have "\<bar>r - x\<bar> \<le> D / 2 ^ 22 + \<bar>x\<bar> / 2 ^ 23 + (S + 4) / 2 ^ 149"
    by linarith
  then show ?thesis by (simp add: D_def S_def)
qed

lemma axis_roundtrip:
  assumes r: "f32_add (f32_mul (f32_div (f32_sub (F32 x) (F32 m)) (F32 s)) (F32 s)) (F32 m) = F32 r"
    and s: "s \<noteq> 0"
  shows "\<bar>r - x\<bar> \<le> \<bar>x - m\<bar> / 2 ^ 22 + \<bar>x\<bar> / 2 ^ 23 + (\<bar>s\<bar> + 4) / 2 ^ 149"
proof -
  from f32_add_finite [OF r] obtain p where
    p: "f32_mul (f32_div (f32_sub (F32 x) (F32 m)) (F32 s)) (F32 s) = F32 p"
    and r4: "round32 (p + m) = F32 r" by auto
  from f32_mul_finite [OF p] obtain q where
    q: "f32_div (f32_sub (F32 x) (F32 m)) (F32 s) = F32 q"
    and r3: "round32 (q * s) = F32 p" by auto
  from f32_div_finite [OF q s] obtain a where
    a: "f32_sub (F32 x) (F32 m) = F32 a" and r2: "round32 (a / s) = F32 q" by auto
  from f32_sub_finite [OF a] have r1: "round32 (x - m) = F32 a" by auto
  show ?thesis
    using s round32_error [OF r1] round32_error [OF r2] round32_error [OF r3]
      round32_error [OF r4]
    by (rule roundtrip_error_bound)
qed

lemma roundtrip_step_1: "f32_sub (F32 (- 29 / 4)) (F32 400) = F32 (- 1629 / 4)"
  unfolding f32_sub_F32
  using round32_representable [where x = "- 1629 / 4" and k = "- 1629" and j = "- 2"] by simp

lemma roundtrip_step_2: "f32_div (F32 (- 1629 / 4)) (F32 200) = F32 (- 2135163 / 1048576)"
proof -
  have "f32_exponent \<bar>- 1629 / 4 / 200 :: real\<bar> = 1" by (rule f32_exponent_eq) simp_all
  then have "round32 (- 1629 / 4 / 200) = F32 (- 2135163 / 1048576)"
    by (simp add: round32_def Let_def round_half_even_def)
  then show ?thesis by (simp add: f32_div_F32)
qed

lemma roundtrip_step_3: "f32_mul (F32 (- 2135163 / 1048576)) (F32 200) = F32 (- 13344769 / 32768)"
proof -
  have "f32_exponent \<bar>- 2135163 / 1048576 * 200 :: real\<bar> = 8" by (rule f32_exponent_eq) simp_all
  then have "round32 (- 2135163 / 1048576 * 200) = F32 (- 13344769 / 32768)"
    by (simp add: round32_def Let_def round_half_even_def)
  then show ?thesis by (simp add: f32_mul_F32)
qed

lemma roundtrip_step_4: "f32_add (F32 (- 13344769 / 32768)) (F32 400) = F32 (- 237569 / 32768)"
  unfolding f32_add_F32
  using round32_representable [where x = "- 237569 / 32768" and k = "- 237569" and j = "- 15"]
  by simp

lemma roundtrip_zero_axis: "f32_add (f32_mul (f32_div (f32_sub (F32 0) (F32 0)) (F32 1)) (F32 1)) (F32 0) = F32 0"
  by (simp add: f32_sub_F32 f32_div_F32 f32_mul_F32 f32_add_F32 round32_zero)

lemma example_roundtrip:
  "denormalize_f32 roundtrip_params (normalize_f32 roundtrip_params roundtrip_waypoint)
   = \<lparr>x32 = F32 (- 237569 / 32768), y32 = F32 0, z32 = F32 0\<rparr>"
  unfolding denormalize_f32_def normalize_f32_def roundtrip_params_def roundtrip_waypoint_def
  by (simp only: array3_f32.sel NormalizationParams_f32.simps Waypoint_f32.simps
      roundtrip_step_1 roundtrip_step_2 roundtrip_step_3 roundtrip_step_4 roundtrip_zero_axis)

text \<open>
  Claim C2, as stated, bounds the error of the round trip by \<open>1e-5\<close>. For the mean 400
  and the standard deviation 200 the coordinate \<open>-7.25\<close> comes back as
  \<open>-7.250030517578125\<close>: an error of more than \<open>3e-5\<close>.
\<close>

theorem normalize_denormalize_tolerance_counterexample:
  "denormalize_f32 roundtrip_params (normalize_f32 roundtrip_params roundtrip_waypoint)
     = \<lparr>x32 = F32 (- 237569 / 32768), y32 = F32 0, z32 = F32 0\<rparr>
   \<and> 1 / 10 ^ 5 < \<bar>- 237569 / 32768 - (- 29 / 4 :: real)\<bar>"
  using example_roundtrip by simp

text \<open>
  Claim C2, amended. For every waypoint and all normalization parameters of finite
  values whose \<open>std\<close> components are nonzero, \<open>normalize\<close> maps each axis to
  \<open>(wp[i] - mean[i]) / std[i]\<close> and \<open>denormalize\<close> maps each axis to
  \<open>v[i] * std[i] + mean[i]\<close>, both in \<^verbatim>\<open>float\<close> arithmetic; when
  \<open>denormalize (normalize wp)\<close> is finite, it differs from \<open>wp\<close> on each axis by at most
  \<open>|wp[i] - mean[i]| / 2\<^sup>2\<^sup>2 + |wp[i]| / 2\<^sup>2\<^sup>3 + (|std[i]| + 4) / 2\<^sup>1\<^sup>4\<^sup>9\<close>. The
  tolerance grows with the distance from the mean; it is not \<open>1e-5\<close>.
\<close>

theorem normalize_denormalize_roundtrip:
  assumes wp: "wp = \<lparr>x32 = F32 x, y32 = F32 y, z32 = F32 z\<rparr>"
    and mean: "mean_f32 np = Array3_f32 (F32 m0) (F32 m1) (F32 m2)"
    and std: "std_f32 np = Array3_f32 (F32 s0) (F32 s1) (F32 s2)"
    and nonzero: "s0 \<noteq> 0" "s1 \<noteq> 0" "s2 \<noteq> 0"
    and finite: "denormalize_f32 np (normalize_f32 np wp) = \<lparr>x32 = F32 rx, y32 = F32 ry, z32 = F32 rz\<rparr>"
  shows "normalize_f32 np wp
           = Array3_f32 (f32_div (f32_sub (F32 x) (F32 m0)) (F32 s0))
                        (f32_div (f32_sub (F32 y) (F32 m1)) (F32 s1))
                        (f32_div (f32_sub (F32 z) (F32 m2)) (F32 s2))
         \<and> \<bar>rx - x\<bar> \<le> \<bar>x - m0\<bar> / 2 ^ 22 + \<bar>x\<bar> / 2 ^ 23 + (\<bar>s0\<bar> + 4) / 2 ^ 149
         \<and> \<bar>ry - y\<bar> \<le> \<bar>y - m1\<bar> / 2 ^ 22 + \<bar>y\<bar> / 2 ^ 23 + (\<bar>s1\<bar> + 4) / 2 ^ 149
         \<and> \<bar>rz - z\<bar> \<le> \<bar>z - m2\<bar> / 2 ^ 22 + \<bar>z\<bar> / 2 ^ 23 + (\<bar>s2\<bar> + 4) / 2 ^ 149"
proof -
  have n: "normalize_f32 np wp
           = Array3_f32 (f32_div (f32_sub (F32 x) (F32 m0)) (F32 s0))
                        (f32_div (f32_sub (F32 y) (F32 m1)) (F32 s1))
                        (f32_div (f32_sub (F32 z) (F32 m2)) (F32 s2))"
    by (simp add: normalize_f32_def wp mean std)
  from finite have
    "f32_add (f32_mul (f32_div (f32_sub (F32 x) (F32 m0)) (F32 s0)) (F32 s0)) (F32 m0) = F32 rx"
    "f32_add (f32_mul (f32_div (f32_sub (F32 y) (F32 m1)) (F32 s1)) (F32 s1)) (F32 m1) = F32 ry"
    "f32_add (f32_mul (f32_div (f32_sub (F32 z) (F32 m2)) (F32 s2)) (F32 s2)) (F32 m2) = F32 rz"
    unfolding n by (simp_all add: denormalize_f32_def mean std)
  then have
    "\<bar>rx - x\<bar> \<le> \<bar>x - m0\<bar> / 2 ^ 22 + \<bar>x\<bar> / 2 ^ 23 + (\<bar>s0\<bar> + 4) / 2 ^ 149"
    "\<bar>ry - y\<bar> \<le> \<bar>y - m1\<bar> / 2 ^ 22 + \<bar>y\<bar> / 2 ^ 23 + (\<bar>s1\<bar> + 4) / 2 ^ 149"
    "\<bar>rz - z\<bar> \<le> \<bar>z - m2\<bar> / 2 ^ 22 + \<bar>z\<bar> / 2 ^ 23 + (\<bar>s2\<bar> + 4) / 2 ^ 149"
    using nonzero by (blast intro: axis_roundtrip)+
  with n show ?thesis by blast
qed

theorem normalize_denormalize_roundtrip_witness:
  "denormalize_f32 roundtrip_params (normalize_f32 roundtrip_params roundtrip_waypoint)
     = \<lparr>x32 = F32 (- 237569 / 32768), y32 = F32 0, z32 = F32 0\<rparr>
   \<and> \<bar>- 237569 / 32768 - (- 29 / 4 :: real)\<bar>
       \<le> \<bar>- 29 / 4 - 400 :: real\<bar> / 2 ^ 22 + \<bar>- 29 / 4 :: real\<bar> / 2 ^ 23 + (\<bar>200 :: real\<bar> + 4) / 2 ^ 149"
  using normalize_denormalize_roundtrip [of roundtrip_waypoint "- 29 / 4" 0 0 roundtrip_params
      400 0 0 200 1 1 "- 237569 / 32768" 0 0] example_roundtrip
  by (simp add: roundtrip_params_def roundtrip_waypoint_def)

section \<open>Loading the normalization parameters: what is reported\<close>

lemma parse_field_absent: "regex_search_field key content = None \<Longrightarrow> parse_field key content arr = Inr arr"
  by (simp add: parse_field_def)

lemma std_only_mean_absent: "regex_search_field ''mean'' std_only_content = None"
  by (simp add: std_only_content_def match_field_here_def is_value_char_def is_digit_def is_space_def)

lemma std_only_std_present: "regex_search_field ''std'' std_only_content = Some ''2, 2, 2''"
  by (simp add: std_only_content_def match_field_here_def is_value_char_def is_digit_def is_space_def)

lemma stof_2: "stof ''2'' = Inr 2"
  using round32_of_int [of 2]
  by (simp add: stof_def Let_def is_space_def is_digit_def digits_value_def)

lemma stof_sp2: "stof '' 2'' = Inr 2"
  using round32_of_int [of 2]
  by (simp add: stof_def Let_def is_space_def is_digit_def digits_value_def)

lemma stof_1_5: "stof ''1.5'' = Inr (3 / 2)"
  using round32_representable [where x = "3 / 2" and k = 3 and j = "- 1"]
  by (simp add: stof_def Let_def is_space_def is_digit_def digits_value_def)

lemma stof_m2: "stof '' -2'' = Inr (- 2)"
  using round32_of_int [of "- 2"]
  by (simp add: stof_def Let_def is_space_def is_digit_def digits_value_def)

lemma stof_sp3: "stof '' 3'' = Inr 3"
  using round32_of_int [of 3]
  by (simp add: stof_def Let_def is_space_def is_digit_def digits_value_def)

lemma std_only_values: "parse_values ''2, 2, 2'' 0 (Array3 1 1 1) = Inr (Array3 2 2 2)"
  by (simp add: parse_values.simps getline_def stof_2 stof_sp2 set3_def)

lemma std_only_std_field: "parse_field ''std'' std_only_content (Array3 1 1 1) = Inr (Array3 2 2 2)"
  by (simp add: parse_field_def std_only_std_present std_only_values)

lemma mean_only_std_absent: "regex_search_field ''std'' mean_only_content = None"
  by (simp add: mean_only_content_def match_field_here_def is_value_char_def is_digit_def
      is_space_def)

lemma mean_only_mean_present:
  "regex_search_field ''mean'' mean_only_content = Some ''1.5, -2, 3''"
  by (simp add: mean_only_content_def match_field_here_def is_value_char_def is_digit_def
      is_space_def)

lemma mean_only_values: "parse_values ''1.5, -2, 3'' 0 (Array3 0 0 0) = Inr (Array3 (3 / 2) (- 2) 3)"
  by (simp add: parse_values.simps getline_def stof_1_5 stof_m2 stof_sp3 set3_def)

lemma mean_only_mean_field:
  "parse_field ''mean'' mean_only_content (Array3 0 0 0) = Inr (Array3 (3 / 2) (- 2) 3)"
  by (simp add: parse_field_def mean_only_mean_present mean_only_values)

text \<open>
  Claim C4, as stated, says that an absent field makes loading report a configuration
  error and never leaves a half-populated state. For the readable file
  \<^verbatim>\<open>{"std": [2, 2, 2]}\<close>, which has no \<^verbatim>\<open>mean\<close> field, \<open>loadNormalization\<close> returns
  \<^verbatim>\<open>true\<close> and stores the parsed \<open>std\<close> beside the default \<open>mean\<close>.
\<close>

theorem loadNormalization_half_populated_counterexample:
  "example_fs ''norm.json'' = Some std_only_content
   \<and> regex_search_field ''mean'' std_only_content = None
   \<and> loadNormalization example_fs ''norm.json'' example_generator
      = (True, example_generator\<lparr>norm_params := \<lparr>mean = Array3 0 0 0, std = Array3 2 2 2\<rparr>\<rparr>)"
  by (simp add: loadNormalization_def parseNormalizationJSON_def NormalizationParams_default_def
      example_fs_def std_only_mean_absent std_only_std_field parse_field_absent)

text \<open>
  Claim C4, amended. When the normalization source is unreadable, loading reports a
  configuration error (it returns \<^verbatim>\<open>false\<close>), and whenever it reports an error the
  Normalizer keeps the parameters it had. When the source is readable and one of the
  \<open>mean\<close>/\<open>std\<close> fields is absent while the other one parses, loading reports success
  and stores the parsed field beside the identity default of the absent one
  (\<open>mean = [0,0,0]\<close>, \<open>std = [1,1,1]\<close>).
\<close>

theorem loadNormalization_behaviour:
  "(fs p = None \<longrightarrow> loadNormalization fs p g = (False, g))
   \<and> (fst (loadNormalization fs p g) = False \<longrightarrow> snd (loadNormalization fs p g) = g)
   \<and> (fs p = Some content \<and> regex_search_field ''mean'' content = None
        \<and> parse_field ''std'' content (Array3 1 1 1) = Inr sd
      \<longrightarrow> loadNormalization fs p g = (True, g\<lparr>norm_params := \<lparr>mean = Array3 0 0 0, std = sd\<rparr>\<rparr>))
   \<and> (fs p = Some content \<and> regex_search_field ''std'' content = None
        \<and> parse_field ''mean'' content (Array3 0 0 0) = Inr m
      \<longrightarrow> loadNormalization fs p g = (True, g\<lparr>norm_params := \<lparr>mean = m, std = Array3 1 1 1\<rparr>\<rparr>))"
proof (intro conjI impI)
  assume "fs p = None"
  then show "loadNormalization fs p g = (False, g)"
    by (simp add: loadNormalization_def parseNormalizationJSON_def)
next
  assume "fst (loadNormalization fs p g) = False"
  then show "snd (loadNormalization fs p g) = g"
    by (simp add: loadNormalization_def split: sum.splits)
next
  assume "fs p = Some content \<and> regex_search_field ''mean'' content = None
        \<and> parse_field ''std'' content (Array3 1 1 1) = Inr sd"
  then show "loadNormalization fs p g = (True, g\<lparr>norm_params := \<lparr>mean = Array3 0 0 0, std = sd\<rparr>\<rparr>)"
    by (simp add: loadNormalization_def parseNormalizationJSON_def NormalizationParams_default_def
        parse_field_absent)
next
  assume "fs p = Some content \<and> regex_search_field ''std'' content = None
        \<and> parse_field ''mean'' content (Array3 0 0 0) = Inr m"
  then show "loadNormalization fs p g = (True, g\<lparr>norm_params := \<lparr>mean = m, std = Array3 1 1 1\<rparr>\<rparr>)"
    by (simp add: loadNormalization_def parseNormalizationJSON_def NormalizationParams_default_def
        parse_field_absent)
qed

theorem loadNormalization_behaviour_witness:
  "example_fs ''missing.json'' = None
   \<and> loadNormalization example_fs ''missing.json'' example_generator = (False, example_generator)
   \<and> snd (loadNormalization example_fs ''missing.json'' example_generator) = example_generator
   \<and> example_fs ''norm.json'' = Some std_only_content
   \<and> regex_search_field ''mean'' std_only_content = None
   \<and> parse_field ''std'' std_only_content (Array3 1 1 1) = Inr (Array3 2 2 2)
   \<and> loadNormalization example_fs ''norm.json'' example_generator
      = (True, example_generator\<lparr>norm_params := \<lparr>mean = Array3 0 0 0, std = Array3 2 2 2\<rparr>\<rparr>)
   \<and> example_fs ''mean.json'' = Some mean_only_content
   \<and> regex_search_field ''std'' mean_only_content = None
   \<and> parse_field ''mean'' mean_only_content (Array3 0 0 0) = Inr (Array3 (3 / 2) (- 2) 3)
   \<and> loadNormalization example_fs ''mean.json'' example_generator
      = (True, example_generator\<lparr>norm_params := \<lparr>mean = Array3 (3 / 2) (- 2) 3, std = Array3 1 1 1\<rparr>\<rparr>)"
proof -
  have a: "example_fs ''missing.json'' = None" by (simp add: example_fs_def)
  have b: "example_fs ''norm.json'' = Some std_only_content" by (simp add: example_fs_def)
  have b': "example_fs ''mean.json'' = Some mean_only_content" by (simp add: example_fs_def)
  note t1 = loadNormalization_behaviour [of example_fs "''missing.json''" example_generator]
  note t2 = loadNormalization_behaviour [of example_fs "''norm.json''" example_generator
      std_only_content "Array3 2 2 2"]
  note t3 = loadNormalization_behaviour [of example_fs "''mean.json''" example_generator
      mean_only_content _ "Array3 (3 / 2) (- 2) 3"]
  from t1 a
  have c: "loadNormalization example_fs ''missing.json'' example_generator = (False, example_generator)"
    by blast
  then have "fst (loadNormalization example_fs ''missing.json'' example_generator) = False" by simp
  with t1
  have d: "snd (loadNormalization example_fs ''missing.json'' example_generator) = example_generator"
    by blast
  from t2 b std_only_mean_absent std_only_std_field
  have e: "loadNormalization example_fs ''norm.json'' example_generator
      = (True, example_generator\<lparr>norm_params := \<lparr>mean = Array3 0 0 0, std = Array3 2 2 2\<rparr>\<rparr>)"
    by blast
  from t3 b' mean_only_std_absent mean_only_mean_field
  have f: "loadNormalization example_fs ''mean.json'' example_generator
      = (True, example_generator\<lparr>norm_params := \<lparr>mean = Array3 (3 / 2) (- 2) 3, std = Array3 1 1 1\<rparr>\<rparr>)"
    by blast
  from a b b' c d e f std_only_mean_absent std_only_std_field mean_only_std_absent
    mean_only_mean_field
  show ?thesis by blast
qed

text \<open>
  A value beyond the range of \<^verbatim>\<open>float\<close> makes \<^verbatim>\<open>std::stof\<close> throw, and loading reports
  the error and keeps the parameters it had; so does a value that underflows.
\<close>

lemma stof_overflow: "stof ''100000000000000000000000000000000000000000'' = Inl OutOfRange"
proof -
  have "round32 100000000000000000000000000000000000000000 = F32_PosInf"
    by (rule round32_overflow) simp
  then show ?thesis
    by (simp add: stof_def Let_def is_space_def is_digit_def digits_value_def)
qed

lemma stof_underflow: "stof ''0.0000000000000000000000000000000000000000000001'' = Inl OutOfRange"
proof -
  have "f32_exponent \<bar>1 / 10 ^ 46 :: real\<bar> = - 126" by (rule f32_exponent_eq) simp_all
  then have "round32 (1 / 10 ^ 46) = F32 0"
    by (simp add: round32_def Let_def round_half_even_def)
  then show ?thesis
    by (simp add: stof_def Let_def is_space_def is_digit_def digits_value_def)
qed

lemma overflow_std_present:
  "regex_search_field ''std'' overflow_content
   = Some ''100000000000000000000000000000000000000000, 2, 2''"
  by (simp add: overflow_content_def match_field_here_def is_value_char_def is_digit_def
      is_space_def)

lemma overflow_mean_absent: "regex_search_field ''mean'' overflow_content = None"
  by (simp add: overflow_content_def match_field_here_def is_value_char_def is_digit_def
      is_space_def)

lemma overflow_values:
  "parse_values ''100000000000000000000000000000000000000000, 2, 2'' 0 (Array3 1 1 1)
   = Inl OutOfRange"
  by (simp add: parse_values.simps getline_def stof_overflow)

lemma loadNormalization_out_of_range:
  "loadNormalization overflow_fs ''overflow.json'' g = (False, g)"
  by (simp add: loadNormalization_def parseNormalizationJSON_def overflow_fs_def
      NormalizationParams_default_def parse_field_def overflow_mean_absent overflow_std_present
      overflow_values)

section \<open>Length of a generated trajectory\<close>

lemma fold_output_step_length:
  "length (fold (output_step np d) is acc) = length acc + length is"
  by (induction "is" arbitrary: acc) (simp_all add: output_step_def)

lemma runInference_length:
  assumes "runInference g latent s e = Inr traj"
    and "session g = Some run"
    and "\<And>out. run latent (normalize_wp (norm_params g) s) (normalize_wp (norm_params g) e) = Inr out
           \<Longrightarrow> inference_contract (gen_config g) out"
  shows "int (length traj) = sint (seq_len (gen_config g))"
proof -
  from assms(1,2) obtain out where
    run: "run latent (normalize_wp (norm_params g) s) (normalize_wp (norm_params g) e) = Inr out"
    by (auto simp: runInference_def Let_def split: sum.splits)
  then have c: "inference_contract (gen_config g) out" by (rule assms(3))
  then have shape: "tensor_shape out = [1, sint (seq_len (gen_config g)), 3]"
    by (simp add: inference_contract_def)
  have n: "sint (word_of_int (tensor_shape out ! Suc 0) :: 32 word) = sint (seq_len (gen_config g))"
    by (simp add: shape)
  from assms(1,2) run have "traj = fold (output_step (norm_params g) (tensor_data out))
      [0 ..< nat (sint (seq_len (gen_config g)))] []" and "0 \<le> sint (seq_len (gen_config g))"
    by (auto simp: runInference_def Let_def n split: if_splits)
  then show ?thesis by (simp add: fold_output_step_length)
qed

lemma runInference_succeeds:
  assumes "session g = Some run"
    and "run latent (normalize_wp (norm_params g) s) (normalize_wp (norm_params g) e) = Inr out"
    and "inference_contract (gen_config g) out"
  shows "\<exists>traj. runInference g latent s e = Inr traj"
proof -
  from assms(3) have shape: "tensor_shape out = [1, sint (seq_len (gen_config g)), 3]"
    and len: "int (length (tensor_data out)) = sint (seq_len (gen_config g)) * 3"
    by (simp_all add: inference_contract_def)
  have n: "sint (word_of_int (tensor_shape out ! 1) :: 32 word) = sint (seq_len (gen_config g))"
    by (simp add: shape)
  from len have nonneg: "0 \<le> sint (seq_len (gen_config g))" by linarith
  from len nonneg have "\<not> length (tensor_data out) < 3 * nat (sint (seq_len (gen_config g)))"
    by linarith
  with nonneg show ?thesis
    using assms(1,2) by (simp add: runInference_def Let_def n shape)
qed

text \<open>
  Claim C5. For every start and end waypoint, when the generator is initialized and the
  external model keeps its inference contract (an output of shape \<open>[1, seq_len, 3]\<close>
  for the configured sequence length), every trajectory that \<open>generate\<close> returns has
  exactly the configured sequence length; and \<open>generate\<close> does return one when the
  latent vector can be allocated.
\<close>

theorem generate_length:
  assumes "session g = Some run"
    and "\<forall>latent a b. \<exists>out. run latent a b = Inr out \<and> inference_contract (gen_config g) out"
  shows "(\<forall>traj g'. generate draw g start end_wp = (Inr traj, g')
            \<longrightarrow> int (length traj) = sint (seq_len (gen_config g)))
         \<and> (0 \<le> sint (latent_dim (gen_config g))
            \<longrightarrow> (\<exists>traj g'. generate draw g start end_wp = (Inr traj, g')))"
proof (intro conjI allI impI)
  fix traj g'
  assume gen: "generate draw g start end_wp = (Inr traj, g')"
  from assms(1) have ready: "isReady g" by (simp add: isReady_def)
  from gen ready obtain latent where
    sl: "sampleLatent draw g = (Inr latent, g')"
    and ri: "runInference g' latent start end_wp = Inr traj"
    by (auto simp: generate_def split: prod.splits sum.splits)
  from sl have g': "g' = g\<lparr>rng_state := rng_state g + 1\<rparr>"
    by (auto simp: sampleLatent_def Let_def split: if_splits)
  have "int (length traj) = sint (seq_len (gen_config g'))"
  proof (rule runInference_length [OF ri])
    show "session g' = Some run" using assms(1) by (simp add: g')
  next
    fix out
    assume "run latent (normalize_wp (norm_params g') start) (normalize_wp (norm_params g') end_wp)
            = Inr out"
    moreover from assms(2) obtain out' where
      "run latent (normalize_wp (norm_params g') start) (normalize_wp (norm_params g') end_wp)
       = Inr out'"
      and "inference_contract (gen_config g) out'"
      by blast
    ultimately show "inference_contract (gen_config g') out"
      by (simp add: g')
  qed
  then show "int (length traj) = sint (seq_len (gen_config g))" by (simp add: g')
next
  assume dim: "0 \<le> sint (latent_dim (gen_config g))"
  let ?g' = "g\<lparr>rng_state := rng_state g + 1\<rparr>"
  let ?latent = "map (draw (rng_state g)) [0 ..< nat (sint (latent_dim (gen_config g)))]"
  from dim have sl: "sampleLatent draw g = (Inr ?latent, ?g')"
    by (simp add: sampleLatent_def Let_def)
  from assms(2) obtain out where
    "run ?latent (normalize_wp (norm_params ?g') start) (normalize_wp (norm_params ?g') end_wp)
     = Inr out"
    and "inference_contract (gen_config g) out"
    by blast
  then have "run ?latent (normalize_wp (norm_params ?g') start)
               (normalize_wp (norm_params ?g') end_wp) = Inr out"
    and "inference_contract (gen_config ?g') out"
    by simp_all
  then obtain traj where "runInference ?g' ?latent start end_wp = Inr traj"
    using runInference_succeeds [of ?g' run ?latent start end_wp out] assms(1) by auto
  with sl assms(1) show "\<exists>traj g'. generate draw g start end_wp = (Inr traj, g')"
    by (simp add: generate_def isReady_def)
qed

lemma example_generate:
  "generate (\<lambda>seed i. 0) example_generator \<lparr>wp_x = 0, wp_y = 0, wp_z = 100\<rparr>
       \<lparr>wp_x = 800, wp_y = 600, wp_z = 200\<rparr>
     = (Inr [\<lparr>wp_x = 0, wp_y = 0, wp_z = 0\<rparr>, \<lparr>wp_x = 1, wp_y = 1, wp_z = 1\<rparr>],
        example_generator\<lparr>rng_state := 1\<rparr>)"
  by (simp add: generate_def isReady_def sampleLatent_def runInference_def example_generator_def
      example_config_def stub_session_def NormalizationParams_default_def output_step_def
      denormalize_def Let_def eval_nat_numeral)

theorem generate_length_witness:
  "session example_generator = Some stub_session
   \<and> 0 \<le> sint (latent_dim (gen_config example_generator))
   \<and> generate (\<lambda>seed i. 0) example_generator \<lparr>wp_x = 0, wp_y = 0, wp_z = 100\<rparr>
       \<lparr>wp_x = 800, wp_y = 600, wp_z = 200\<rparr>
     = (Inr [\<lparr>wp_x = 0, wp_y = 0, wp_z = 0\<rparr>, \<lparr>wp_x = 1, wp_y = 1, wp_z = 1\<rparr>],
        example_generator\<lparr>rng_state := 1\<rparr>)
   \<and> int (length [\<lparr>wp_x = 0, wp_y = 0, wp_z = 0\<rparr>, \<lparr>wp_x = 1, wp_y = 1, wp_z = 1\<rparr>])
     = sint (seq_len (gen_config example_generator))"
proof -
  have s: "session example_generator = Some stub_session"
    by (simp add: example_generator_def)
  have c: "\<forall>latent a b. \<exists>out. stub_session latent a b = Inr out
             \<and> inference_contract (gen_config example_generator) out"
    by (simp add: stub_session_def inference_contract_def example_generator_def example_config_def)
  from generate_length [OF s c, of "\<lambda>seed i. 0" "\<lparr>wp_x = 0, wp_y = 0, wp_z = 100\<rparr>"
      "\<lparr>wp_x = 800, wp_y = 600, wp_z = 200\<rparr>"] example_generate
  have "int (length [\<lparr>wp_x = 0, wp_y = 0, wp_z = 0\<rparr>, \<lparr>wp_x = 1, wp_y = 1, wp_z = 1\<rparr>])
     = sint (seq_len (gen_config example_generator))"
    by blast
  moreover have "0 \<le> sint (latent_dim (gen_config example_generator))"
    by (simp add: example_generator_def example_config_def)
  ultimately show ?thesis using s example_generate by blast
qed

section \<open>Latent sampler: the random state\<close>

lemma sampleLatent_ok:
  "0 \<le> sint (latent_dim (gen_config g)) \<Longrightarrow>
   sampleLatent draw g =
     (Inr (map (draw (rng_state g)) [0 ..< nat (sint (latent_dim (gen_config g)))]),
      g\<lparr>rng_state := rng_state g + 1\<rparr>)"
  by (simp add: sampleLatent_def Let_def)

lemma after_calls_state:
  assumes "0 \<le> sint (latent_dim (gen_config g))"
  shows "gen_config (after_calls draw k g) = gen_config g
         \<and> rng_state (after_calls draw k g) = rng_state g + of_nat k"
proof (induction k)
  case 0
  show ?case by (simp add: after_calls_def)
next
  case (Suc k)
  let ?h = "after_calls draw k g"
  from Suc assms have "0 \<le> sint (latent_dim (gen_config ?h))" by simp
  then have "snd (sampleLatent draw ?h) = ?h\<lparr>rng_state := rng_state ?h + 1\<rparr>"
    by (simp add: sampleLatent_ok)
  moreover have "after_calls draw (Suc k) g = snd (sampleLatent draw ?h)"
    by (simp add: after_calls_def)
  ultimately show ?case using Suc by (simp add: add.assoc)
qed

lemma word32_of_nat_distinct:
  assumes "i < j" and "j < i + 2 ^ 32"
  shows "(of_nat i :: 32 word) \<noteq> of_nat j"
proof
  assume "(of_nat i :: 32 word) = of_nat j"
  then have "(of_nat (j - i) :: 32 word) = 0"
    using assms(1) by (simp add: of_nat_diff)
  then have "2 ^ 32 dvd (j - i)"
    by (simp add: word_of_nat_eq_0_iff)
  moreover from assms have "0 < j - i" and "j - i < 2 ^ 32" by simp_all
  ultimately show False
    by (meson dvd_imp_le not_le)
qed

text \<open>
  Claim C8, as stated, says that the random state of the sampler can be seeded
  explicitly, so that generation is reproducible, and that wall-clock time is not its
  only source. The constructor takes the state from the clock and from nothing else:
  the same configuration and model, constructed at the clock readings 0 and 1, start
  with different random states.
\<close>

theorem generator_seed_from_clock_counterexample:
  "map_sum id rng_state (TrajectoryGenerator_new stub_load 0 example_config) = Inr 0
   \<and> map_sum id rng_state (TrajectoryGenerator_new stub_load 1 example_config) = Inr 1
   \<and> map_sum id rng_state (TrajectoryGenerator_new stub_load 0 example_config)
      \<noteq> map_sum id rng_state (TrajectoryGenerator_new stub_load 1 example_config)"
  by (simp add: TrajectoryGenerator_new_def stub_load_def)

text \<open>
  Claim C8, amended. The constructor sets the random state of the sampler to the clock
  reading (modulo \<open>2 ^ 32\<close>), whatever the configuration. Each \<open>sampleLatent\<close> call that
  can allocate its vector seeds a fresh engine with the current state, draws the vector
  from it and increments the state, so that two calls fewer than \<open>2 ^ 32\<close> calls apart
  use distinct random states.
\<close>

theorem sampleLatent_seeds:
  "(TrajectoryGenerator_new load now cfg = Inr g0 \<longrightarrow> rng_state g0 = word_of_int now)
   \<and> (0 \<le> sint (latent_dim (gen_config g)) \<longrightarrow>
        fst (sampleLatent draw g)
          = Inr (map (draw (rng_state g)) [0 ..< nat (sint (latent_dim (gen_config g)))])
        \<and> rng_state (snd (sampleLatent draw g)) = rng_state g + 1
        \<and> (i < j \<and> j < i + 2 ^ 32 \<longrightarrow>
             rng_state (after_calls draw i g) \<noteq> rng_state (after_calls draw j g)))"
proof (intro conjI impI)
  assume "TrajectoryGenerator_new load now cfg = Inr g0"
  then show "rng_state g0 = word_of_int now"
    by (auto simp: TrajectoryGenerator_new_def split: option.splits)
next
  assume d: "0 \<le> sint (latent_dim (gen_config g))"
  then show "fst (sampleLatent draw g)
          = Inr (map (draw (rng_state g)) [0 ..< nat (sint (latent_dim (gen_config g)))])"
    and "rng_state (snd (sampleLatent draw g)) = rng_state g + 1"
    by (simp_all add: sampleLatent_ok)
  assume "i < j \<and> j < i + 2 ^ 32"
  then have "(of_nat i :: 32 word) \<noteq> of_nat j" by (simp add: word32_of_nat_distinct)
  then show "rng_state (after_calls draw i g) \<noteq> rng_state (after_calls draw j g)"
    by (simp add: after_calls_state [OF d])
qed

theorem sampleLatent_seeds_witness:
  "TrajectoryGenerator_new stub_load 1700000000 example_config
     = Inr (example_generator\<lparr>rng_state := 1700000000\<rparr>)
   \<and> 0 \<le> sint (latent_dim (gen_config example_generator))
   \<and> (0::nat) < 1 \<and> (1::nat) < 0 + 2 ^ 32
   \<and> rng_state (example_generator\<lparr>rng_state := 1700000000\<rparr>) = 1700000000
   \<and> fst (sampleLatent (\<lambda>seed i. 0) example_generator) = Inr [0]
   \<and> rng_state (snd (sampleLatent (\<lambda>seed i. 0) example_generator)) = 1
   \<and> rng_state (after_calls (\<lambda>seed i. 0) 0 example_generator)
      \<noteq> rng_state (after_calls (\<lambda>seed i. 0) 1 example_generator)"
proof -
  have new: "TrajectoryGenerator_new stub_load 1700000000 example_config
     = Inr (example_generator\<lparr>rng_state := 1700000000\<rparr>)"
    by (simp add: TrajectoryGenerator_new_def stub_load_def example_generator_def)
  have dim: "0 \<le> sint (latent_dim (gen_config example_generator))"
    by (simp add: example_generator_def example_config_def)
  have ij: "(0::nat) < 1 \<and> (1::nat) < 0 + 2 ^ 32" by simp
  note t = sampleLatent_seeds [of stub_load 1700000000 example_config
      "example_generator\<lparr>rng_state := 1700000000\<rparr>" example_generator "\<lambda>seed i. 0" 0 1]
  from t new have a: "rng_state (example_generator\<lparr>rng_state := 1700000000\<rparr>) = 1700000000"
    by simp
  from t dim ij have b: "fst (sampleLatent (\<lambda>seed i. 0) example_generator)
          = Inr (map ((\<lambda>seed i. 0) (rng_state example_generator))
                  [0 ..< nat (sint (latent_dim (gen_config example_generator)))])"
    and c: "rng_state (snd (sampleLatent (\<lambda>seed i. 0) example_generator))
             = rng_state example_generator + 1"
    and d: "rng_state (after_calls (\<lambda>seed i. 0) 0 example_generator)
      \<noteq> rng_state (after_calls (\<lambda>seed i. 0) 1 example_generator)"
    by blast+
  from b have b': "fst (sampleLatent (\<lambda>seed i. 0) example_generator) = Inr [0]"
    by (simp add: example_generator_def example_config_def)
  from c have c': "rng_state (snd (sampleLatent (\<lambda>seed i. 0) example_generator)) = 1"
    by (simp add: example_generator_def)
  from new dim ij a b' c' d show ?thesis by blast
qed

end
